theory Spec2Isabelle
  imports Main
begin

section \<open>next-axis: a fetch wrapper with interceptors\<close>

text \<open>
  The repository holds two copies of the client.
  \<^item> \<^verbatim>\<open>src/index.ts\<close> with \<^verbatim>\<open>src/utils/index.ts\<close>: interceptors are single callbacks
    (\<^verbatim>\<open>use(fn)\<close>, \<^verbatim>\<open>run\<close>), there is no failure chain. Its definitions carry the
    suffix \<open>_src\<close> here where a name would clash (\<open>use_src\<close>, \<open>eject_src\<close>,
    \<open>combine_src\<close>, \<open>core_src\<close>); \<open>run\<close> keeps its name.
  \<^item> the unnamed files \<^verbatim>\<open>part_000\<close> (README, types, index) and \<^verbatim>\<open>part_001\<close> (utils):
    interceptors are handler pairs (\<^verbatim>\<open>use(onFulfilled, onRejected)\<close>, \<^verbatim>\<open>runFulfilled\<close>,
    \<^verbatim>\<open>runRejected\<close>), failures go through the response failure chain. Its definitions
    keep the plain names (\<open>use\<close>, \<open>eject\<close>, \<open>combine\<close>, \<open>core\<close>).
  \<^verbatim>\<open>toHeaders\<close>, \<^verbatim>\<open>makeError\<close>, \<^verbatim>\<open>setBaseURL\<close>, \<^verbatim>\<open>setHeader\<close> and \<^verbatim>\<open>removeHeader\<close> are the
  same text in both copies and are embedded once.
\<close>

text \<open>
  What the model leaves out. An asynchronous function is the function from its
  arguments to the way its promise settles: a promise that never settles (a transport
  without timer that never answers, a callback that never returns) is not modelled.
  Callbacks are functions of their argument: one that changes the configuration it was
  given in place and then throws is the one that throws. A property set to
  \<^verbatim>\<open>undefined\<close> is an absent property. The validation of header names and values by
  \<^verbatim>\<open>Headers\<close> is left out.
\<close>

subsection \<open>JavaScript values\<close>

text \<open>
  Values of type \<^verbatim>\<open>any\<close>: decoded bodies, recovered values of failure callbacks, request
  data. Numbers are integers here (fractions and NaN are not modelled); an object is
  its list of own properties.
\<close>

datatype jsval =
    JUndefined
  | JNull
  | JBool bool
  | JNum int
  | JStr string
  | JArr "jsval list"
  | JObj "(string \<times> jsval) list"

text \<open>Truthiness, as \<^verbatim>\<open>if (v)\<close> and \<^verbatim>\<open>v && ...\<close> read it.\<close>

fun truthy :: "jsval \<Rightarrow> bool" where
  "truthy JUndefined = False"
| "truthy JNull = False"
| "truthy (JBool b) = b"
| "truthy (JNum n) = (n \<noteq> 0)"
| "truthy (JStr s) = (s \<noteq> [])"
| "truthy (JArr _) = True"
| "truthy (JObj _) = True"

fun typeof :: "jsval \<Rightarrow> string" where
  "typeof JUndefined = ''undefined''"
| "typeof JNull = ''object''"
| "typeof (JBool _) = ''boolean''"
| "typeof (JNum _) = ''number''"
| "typeof (JStr _) = ''string''"
| "typeof (JArr _) = ''object''"
| "typeof (JObj _) = ''object''"

text \<open>\<^verbatim>\<open>k in v\<close> for a string key that is not an array index, and \<^verbatim>\<open>v.k\<close>.\<close>

fun has_key :: "string \<Rightarrow> jsval \<Rightarrow> bool" where
  "has_key k (JObj kvs) = (map_of kvs k \<noteq> None)"
| "has_key k _ = False"

fun get_key :: "string \<Rightarrow> jsval \<Rightarrow> jsval" where
  "get_key k (JObj kvs) = (case map_of kvs k of Some v \<Rightarrow> v | None \<Rightarrow> JUndefined)"
| "get_key k _ = JUndefined"

subsection \<open>Strings\<close>

definition lower_char :: "char \<Rightarrow> char" where
  "lower_char c =
     (case map_of (zip ''ABCDEFGHIJKLMNOPQRSTUVWXYZ'' ''abcdefghijklmnopqrstuvwxyz'') c of
        Some d \<Rightarrow> d | None \<Rightarrow> c)"

definition upper_char :: "char \<Rightarrow> char" where
  "upper_char c =
     (case map_of (zip ''abcdefghijklmnopqrstuvwxyz'' ''ABCDEFGHIJKLMNOPQRSTUVWXYZ'') c of
        Some d \<Rightarrow> d | None \<Rightarrow> c)"

definition toLowerCase :: "string \<Rightarrow> string" where
  "toLowerCase s = map lower_char s"

definition toUpperCase :: "string \<Rightarrow> string" where
  "toUpperCase s = map upper_char s"

definition startsWith :: "string \<Rightarrow> string \<Rightarrow> bool" where
  "startsWith s p = (take (length p) s = p)"

definition endsWith :: "string \<Rightarrow> string \<Rightarrow> bool" where
  "endsWith s p = (length p \<le> length s \<and> drop (length s - length p) s = p)"

text \<open>\<^verbatim>\<open>s.includes(p)\<close>: \<open>p\<close> occurs in \<open>s\<close> as a contiguous substring.\<close>

fun str_includes :: "string \<Rightarrow> string \<Rightarrow> bool" where
  "str_includes [] p = (p = [])"
| "str_includes (c # cs) p = (startsWith (c # cs) p \<or> str_includes cs p)"

text \<open>\<^verbatim>\<open>String(n)\<close> of an integer: its decimal digits, with a sign.\<close>

definition digit_char :: "nat \<Rightarrow> char" where
  "digit_char d = ''0123456789'' ! d"

fun string_of_nat :: "nat \<Rightarrow> string" where
  "string_of_nat n =
     (if n < 10 then [digit_char n] else string_of_nat (n div 10) @ [digit_char (n mod 10)])"

declare string_of_nat.simps [simp del]

definition string_of_int :: "int \<Rightarrow> string" where
  "string_of_int i = (if i < 0 then CHR ''-'' # string_of_nat (nat (- i)) else string_of_nat (nat i))"

subsection \<open>Headers\<close>

text \<open>
  The content of a \<^verbatim>\<open>Headers\<close> object: names are case-insensitive and kept in lower
  case, one value per name. \<^verbatim>\<open>new Headers(init)\<close> appends the entries of \<open>init\<close> one
  by one, joining the values of a repeated name with a comma.
\<close>

type_synonym hdrs = "string \<rightharpoonup> string"

definition h_set :: "string \<Rightarrow> string \<Rightarrow> hdrs \<Rightarrow> hdrs" where
  "h_set k v h = h(toLowerCase k \<mapsto> v)"

definition h_get :: "string \<Rightarrow> hdrs \<Rightarrow> string option" where
  "h_get k h = h (toLowerCase k)"

definition h_has :: "string \<Rightarrow> hdrs \<Rightarrow> bool" where
  "h_has k h = (h (toLowerCase k) \<noteq> None)"

definition h_delete :: "string \<Rightarrow> hdrs \<Rightarrow> hdrs" where
  "h_delete k h = h(toLowerCase k := None)"

definition h_append :: "string \<Rightarrow> string \<Rightarrow> hdrs \<Rightarrow> hdrs" where
  "h_append k v h =
     h(toLowerCase k \<mapsto> (case h (toLowerCase k) of None \<Rightarrow> v | Some old \<Rightarrow> old @ '', '' @ v))"

fun new_Headers :: "(string \<times> string) list \<Rightarrow> hdrs \<Rightarrow> hdrs" where
  "new_Headers [] h = h"
| "new_Headers ((k, v) # kvs) h = new_Headers kvs (h_append k v h)"

text \<open>
  \<^verbatim>\<open>HeadersInit\<close>: a plain object (or a list of pairs), or a \<^verbatim>\<open>Headers\<close> object. A
  \<^verbatim>\<open>Headers\<close> object is mutable and shared, so it is an address into a store of
  header collections.
\<close>

datatype headers_init = Plain "(string \<times> string) list" | HeadersObj nat

type_synonym store = "hdrs list"

definition deref :: "store \<Rightarrow> nat \<Rightarrow> hdrs" where
  "deref s r = (if r < length s then s ! r else Map.empty)"

text \<open>
  \<^verbatim>\<open>toHeaders = (h) => h instanceof Headers ? h : new Headers(h ?? {})\<close>: a
  \<^verbatim>\<open>Headers\<close> object is returned as it is, the same object; anything else is copied
  into a new one.
\<close>

fun toHeaders :: "headers_init option \<Rightarrow> store \<Rightarrow> nat \<times> store" where
  "toHeaders (Some (HeadersObj r)) s = (r, s)"
| "toHeaders (Some (Plain kvs)) s = (length s, s @ [new_Headers kvs Map.empty])"
| "toHeaders None s = (length s, s @ [Map.empty])"

subsection \<open>Configurations, responses, errors\<close>

text \<open>
  The request body \<^verbatim>\<open>cfg.data\<close>: one of the four classes that \<^verbatim>\<open>core\<close> tests with
  \<^verbatim>\<open>instanceof\<close> (their content is opaque here), or any other value.
\<close>

datatype body =
    FormData string
  | Blob string
  | ArrayBuffer string
  | URLSearchParams string
  | Val jsval

datatype abort_signal = AbortSignal nat

text \<open>
  \<^verbatim>\<open>RequestConfig\<close>. An absent (or \<^verbatim>\<open>undefined\<close>) property is \<open>None\<close>; absent data
  is \<open>Val JUndefined\<close>. The property \<^verbatim>\<open>method\<close> is the field \<open>http_method\<close>
  (\<open>method\<close> is a keyword of Isabelle). \<open>init\<close> holds the remaining \<^verbatim>\<open>RequestInit\<close> properties
  (\<^verbatim>\<open>next\<close>, \<^verbatim>\<open>cache\<close>, ...), which the client only forwards.
\<close>

record request_config =
  url :: "string option"
  http_method :: "string option"
  baseURL :: "string option"
  headers :: "headers_init option"
  data :: body
  timeout :: "int option"
  withCredentials :: "bool option"
  credentials :: "string option"
  signal :: "abort_signal option"
  init :: "(string \<times> jsval) list"

text \<open>\<^verbatim>\<open>HttpResponse\<close>.\<close>

record http_response =
  res_data :: jsval
  res_status :: int
  res_headers :: hdrs
  res_config :: request_config

text \<open>
  \<^verbatim>\<open>HttpError\<close>, the value \<^verbatim>\<open>makeError\<close> builds: an \<^verbatim>\<open>Error\<close> with
  \<^verbatim>\<open>isAxiosError = true\<close>. Its \<^verbatim>\<open>name\<close> is that of \<^verbatim>\<open>Error\<close>.
\<close>

record http_error =
  err_message :: string
  err_response :: "http_response option"
  err_config :: request_config
  err_status :: "int option"

text \<open>
  Any other thrown value, by the properties \<^verbatim>\<open>core\<close> reads from it: \<^verbatim>\<open>e?.name\<close>,
  \<^verbatim>\<open>e?.message\<close>, \<^verbatim>\<open>e?.response\<close>. It does not carry \<^verbatim>\<open>isAxiosError\<close>.
\<close>

record js_exn =
  name :: "string option"
  message :: "string option"
  response :: "http_response option"

datatype thrown = HttpErr http_error | Exn js_exn

fun e_isAxiosError :: "thrown \<Rightarrow> bool" where
  "e_isAxiosError (HttpErr _) = True"
| "e_isAxiosError (Exn _) = False"

fun e_name :: "thrown \<Rightarrow> string option" where
  "e_name (HttpErr _) = Some ''Error''"
| "e_name (Exn x) = name x"

fun e_message :: "thrown \<Rightarrow> string option" where
  "e_message (HttpErr h) = Some (err_message h)"
| "e_message (Exn x) = message x"

fun e_response :: "thrown \<Rightarrow> http_response option" where
  "e_response (HttpErr h) = err_response h"
| "e_response (Exn x) = response x"

definition makeError ::
  "string \<Rightarrow> request_config \<Rightarrow> http_response option \<Rightarrow> int option \<Rightarrow> http_error" where
  "makeError msg cfg res status =
     \<lparr>err_message = msg, err_response = res, err_config = cfg, err_status = status\<rparr>"

subsection \<open>Interceptors (part_001)\<close>

text \<open>
  A callback either returns (\<open>Inr\<close>) or throws (\<open>Inl\<close>); awaiting a promise is the
  same two cases. A callback that never settles is not modelled.
\<close>

record 'a handler =
  onFulfilled :: "('a \<Rightarrow> thrown + 'a) option"
  onRejected :: "(thrown \<Rightarrow> thrown + jsval) option"


text \<open>
  \<^verbatim>\<open>if (this.handlers[id]) this.handlers[id] = null\<close>: an index out of range reads
  \<^verbatim>\<open>undefined\<close>, an ejected slot reads \<^verbatim>\<open>null\<close>; both are falsy and nothing is written.
\<close>

definition eject :: "int \<Rightarrow> 'a handler option list \<Rightarrow> 'a handler option list" where
  "eject i handlers =
     (if 0 \<le> i \<and> nat i < length handlers \<and> handlers ! nat i \<noteq> None
      then handlers[nat i := None] else handlers)"

fun runFulfilled :: "'a handler option list \<Rightarrow> 'a \<Rightarrow> thrown + 'a" where
  "runFulfilled [] out = Inr out"
| "runFulfilled (h # hs) out =
     (case h of
        None \<Rightarrow> runFulfilled hs out
      | Some h' \<Rightarrow>
          (case onFulfilled h' of
             None \<Rightarrow> runFulfilled hs out
           | Some f \<Rightarrow>
               (case f out of
                  Inl e \<Rightarrow> Inl e
                | Inr out' \<Rightarrow> runFulfilled hs out')))"

fun runRejected :: "'a handler option list \<Rightarrow> thrown \<Rightarrow> thrown + jsval" where
  "runRejected [] err = Inl err"
| "runRejected (h # hs) err =
     (case h of
        None \<Rightarrow> runRejected hs err
      | Some h' \<Rightarrow>
          (case onRejected h' of
             None \<Rightarrow> runRejected hs err
           | Some f \<Rightarrow>
               (case f err of
                  Inr v \<Rightarrow> Inr v
                | Inl next \<Rightarrow> runRejected hs next)))"

subsection \<open>Interceptors (src/utils/index.ts)\<close>


text \<open>
  \<^verbatim>\<open>this.list[id] = undefined\<close>, with no test. Writing past the end extends the
  array with holes, which iterate as \<^verbatim>\<open>undefined\<close>; a negative number names a property
  that \<^verbatim>\<open>for ... of\<close> never visits. Lists are unbounded here: the limit of \<open>2^32 - 1\<close>
  on the length of an array is not modelled.
\<close>

definition eject_src ::
  "int \<Rightarrow> ('a \<Rightarrow> thrown + 'a) option list \<Rightarrow> ('a \<Rightarrow> thrown + 'a) option list" where
  "eject_src i list =
     (if 0 \<le> i
      then (if nat i < length list then list[nat i := None]
            else list @ replicate (nat i - length list) None @ [None])
      else list)"

fun run :: "('a \<Rightarrow> thrown + 'a) option list \<Rightarrow> 'a \<Rightarrow> thrown + 'a" where
  "run [] v = Inr v"
| "run (fn # fns) v =
     (case fn of
        None \<Rightarrow> run fns v
      | Some f \<Rightarrow> (case f v of Inl e \<Rightarrow> Inl e | Inr v' \<Rightarrow> run fns v'))"

subsection \<open>Sequences of register and eject operations\<close>








text \<open>Callbacks for the examples: \<open>tag c\<close> appends the character \<open>c\<close> to a string.\<close>

definition tag :: "char \<Rightarrow> string \<Rightarrow> thrown + string" where
  "tag c s = Inr (s @ [c])"

definition tag_handler :: "char \<Rightarrow> string handler" where
  "tag_handler c = \<lparr>onFulfilled = Some (tag c), onRejected = None\<rparr>"

subsection \<open>The platform\<close>

text \<open>
  What \<^verbatim>\<open>fetch\<close> resolves to, by what \<^verbatim>\<open>core\<close> reads of it: the status, the headers,
  and the two body readers \<^verbatim>\<open>r.json()\<close> and \<^verbatim>\<open>r.text()\<close>, each of which may reject
  (\<open>Inl\<close>, with what it throws).
\<close>

record raw_response =
  raw_status :: int
  raw_headers :: hdrs
  raw_json :: "js_exn + jsval"
  raw_text :: "js_exn + string"

text \<open>
  The primitives of the platform are parameters of the model:
  \<^verbatim>\<open>JSON.stringify\<close>; \<open>resolve rel base\<close> for \<^verbatim>\<open>new URL(rel, base).toString()\<close>, which
  may throw; and \<^verbatim>\<open>fetch\<close>, given the configuration it is called with and the content
  of its headers, which resolves to a response or rejects with an exception of the
  platform. A \<^verbatim>\<open>fetch\<close> that is aborted, by the timer of \<^verbatim>\<open>core\<close> or by the caller's
  signal, rejects with an exception named \<^verbatim>\<open>AbortError\<close>. A \<^verbatim>\<open>fetch\<close> that never settles
  is not modelled.
\<close>

record platform =
  stringify :: "jsval \<Rightarrow> string"
  resolve :: "string \<Rightarrow> string \<Rightarrow> js_exn + string"
  fetch :: "request_config \<Rightarrow> hdrs \<Rightarrow> js_exn + raw_response"

text \<open>What a call does beside returning: timers, the transport, the body readers,
  and each run of the response failure chain with the error it was given.\<close>

datatype event =
    SetTimeout int
  | ClearTimeout
  | Fetch "string option"
  | ReadJson
  | ReadText
  | RunRejected thrown

subsection \<open>The client state\<close>

text \<open>
  \<^verbatim>\<open>defaults\<close> of \<^verbatim>\<open>createHttp\<close>, with the store of the \<^verbatim>\<open>Headers\<close> objects it may
  refer to. The two registries are arguments of \<^verbatim>\<open>core\<close>: a call does not change them.
\<close>

record world =
  defaults :: request_config
  heap :: store

definition store_upd :: "store \<Rightarrow> nat \<Rightarrow> (hdrs \<Rightarrow> hdrs) \<Rightarrow> store" where
  "store_upd s r f = (if r < length s then s[r := f (s ! r)] else s)"

text \<open>\<^verbatim>\<open>a ?? b\<close>.\<close>

definition orElse :: "'a option \<Rightarrow> 'a option \<Rightarrow> 'a option" where
  "orElse a b = (case a of Some x \<Rightarrow> Some x | None \<Rightarrow> b)"

text \<open>\<^verbatim>\<open>{ method: "GET", headers: {}, ...init }\<close>.\<close>

definition createHttp :: "request_config \<Rightarrow> store \<Rightarrow> world" where
  "createHttp i s =
     \<lparr>defaults = i\<lparr>http_method := orElse (http_method i) (Some ''GET''),
                     headers := orElse (headers i) (Some (Plain []))\<rparr>,
      heap = s\<rparr>"

definition setBaseURL :: "string \<Rightarrow> world \<Rightarrow> world" where
  "setBaseURL u w = w\<lparr>defaults := (defaults w)\<lparr>baseURL := Some u\<rparr>\<rparr>"

definition setHeader :: "string \<Rightarrow> string \<Rightarrow> world \<Rightarrow> world" where
  "setHeader k v w =
     (case toHeaders (headers (defaults w)) (heap w) of
        (h, s) \<Rightarrow>
          \<lparr>defaults = (defaults w)\<lparr>headers := Some (HeadersObj h)\<rparr>,
           heap = store_upd s h (h_set k v)\<rparr>)"

definition removeHeader :: "string \<Rightarrow> world \<Rightarrow> world" where
  "removeHeader k w =
     (case toHeaders (headers (defaults w)) (heap w) of
        (h, s) \<Rightarrow>
          \<lparr>defaults = (defaults w)\<lparr>headers := Some (HeadersObj h)\<rparr>,
           heap = store_upd s h (h_delete k)\<rparr>)"

subsection \<open>Merging (both copies)\<close>

text \<open>
  \<^verbatim>\<open>const headers = toHeaders(defaults.headers);\<close>
  \<^verbatim>\<open>toHeaders(cfg.headers).forEach((v, k) => headers.set(k, v));\<close>
  The names of a \<^verbatim>\<open>Headers\<close> object are in lower case already, so setting each entry
  of the second collection in the first is the override \<open>++\<close> of maps. One case is
  outside this model: a \<^verbatim>\<open>Set-Cookie\<close> repeated in the headers of the call is iterated
  value by value, so that the last value is set, where the model sets the joined value.
  No theorem below states the content of the merged headers for such a call.
\<close>

definition merge_headers :: "world \<Rightarrow> request_config \<Rightarrow> nat \<times> store" where
  "merge_headers w cfg =
     (case toHeaders (headers (defaults w)) (heap w) of
        (h, s1) \<Rightarrow>
          (case toHeaders (headers cfg) s1 of
             (c, s2) \<Rightarrow> (h, store_upd s2 h (\<lambda>m. m ++ deref s2 c))))"

text \<open>
  \<^verbatim>\<open>body != null && !(body instanceof FormData) && !(body instanceof Blob) &&\<close>
  \<^verbatim>\<open>!(body instanceof ArrayBuffer) && !(body instanceof URLSearchParams) &&\<close>
  \<^verbatim>\<open>typeof body === "object"\<close>
\<close>

fun isPlainObj :: "body \<Rightarrow> bool" where
  "isPlainObj (Val v) = (v \<noteq> JNull \<and> v \<noteq> JUndefined \<and> typeof v = ''object'')"
| "isPlainObj (FormData _) = False"
| "isPlainObj (Blob _) = False"
| "isPlainObj (ArrayBuffer _) = False"
| "isPlainObj (URLSearchParams _) = False"

fun json_text :: "platform \<Rightarrow> body \<Rightarrow> body" where
  "json_text p (Val v) = Val (JStr (stringify p v))"
| "json_text p b = b"

text \<open>\<^verbatim>\<open>{ ...defaults, ...cfg }\<close>: a property of \<open>cfg\<close> wins over the default.\<close>

definition spread :: "request_config \<Rightarrow> request_config \<Rightarrow> request_config" where
  "spread d c =
     \<lparr>url = orElse (url c) (url d),
      http_method = orElse (http_method c) (http_method d),
      baseURL = orElse (baseURL c) (baseURL d),
      headers = orElse (headers c) (headers d),
      data = (if data c = Val JUndefined then data d else data c),
      timeout = orElse (timeout c) (timeout d),
      withCredentials = orElse (withCredentials c) (withCredentials d),
      credentials = orElse (credentials c) (credentials d),
      signal = orElse (signal c) (signal d),
      init = init c @ filter (\<lambda>kv. map_of (init c) (fst kv) = None) (init d)\<rparr>"

definition resolved_method :: "request_config \<Rightarrow> request_config \<Rightarrow> string" where
  "resolved_method d c =
     toUpperCase (case orElse (http_method c) (orElse (http_method d) (Some ''GET'')) of
                    Some m \<Rightarrow> m | None \<Rightarrow> ''GET'')"

subsection \<open>URLs\<close>

text \<open>\<^verbatim>\<open>/^https?:\/\//i.test(u)\<close>\<close>

definition isAbs :: "string \<Rightarrow> bool" where
  "isAbs u = (startsWith (toLowerCase u) ''http://'' \<or> startsWith (toLowerCase u) ''https://'')"

definition slashed :: "string \<Rightarrow> string" where
  "slashed base = (if endsWith base ''/'' then base else base @ ''/'')"

text \<open>part_001: \<^verbatim>\<open>cleanRel = rel.replace(/^\/+/, "")\<close>.\<close>

definition combine :: "platform \<Rightarrow> string \<Rightarrow> string \<Rightarrow> js_exn + string" where
  "combine p base rel =
     (if rel = [] then Inr base
      else if isAbs rel then Inr rel
      else resolve p (dropWhile (\<lambda>c. c = CHR ''/'') rel) (slashed base))"

text \<open>src/utils/index.ts.\<close>

definition combine_src :: "platform \<Rightarrow> string \<Rightarrow> string \<Rightarrow> js_exn + string" where
  "combine_src p base rel = (if isAbs rel then Inr rel else resolve p rel (slashed base))"

subsection \<open>Normalizing a response (both copies)\<close>

text \<open>\<^verbatim>\<open>r.headers.get("content-type") || ""\<close>\<close>

definition content_type :: "raw_response \<Rightarrow> string" where
  "content_type r = (case raw_headers r ''content-type'' of Some c \<Rightarrow> c | None \<Rightarrow> [])"

text \<open>
  \<^verbatim>\<open>try { parsed = ct.includes("application/json") ? await r.json() : await r.text(); }\<close>
  \<^verbatim>\<open>catch { parsed = ct.includes("application/json") ? null : ""; }\<close>
  with the reader that was called.
\<close>

definition read_body :: "raw_response \<Rightarrow> jsval \<times> event list" where
  "read_body r =
     (if str_includes (content_type r) ''application/json''
      then ((case raw_json r of Inr v \<Rightarrow> v | Inl _ \<Rightarrow> JNull), [ReadJson])
      else ((case raw_text r of Inr t \<Rightarrow> JStr t | Inl _ \<Rightarrow> JStr []), [ReadText]))"

text \<open>part_000: \<^verbatim>\<open>let parsed = null; if (r.status !== 204 && r.status !== 205) { ... }\<close>\<close>

definition parse_body :: "raw_response \<Rightarrow> jsval \<times> event list" where
  "parse_body r =
     (if raw_status r \<noteq> 204 \<and> raw_status r \<noteq> 205 then read_body r else (JNull, []))"

definition wrap :: "raw_response \<Rightarrow> jsval \<Rightarrow> request_config \<Rightarrow> http_response" where
  "wrap r parsed final =
     \<lparr>res_data = parsed, res_status = raw_status r, res_headers = raw_headers r,
      res_config = final\<rparr>"

definition status_error :: "raw_response \<Rightarrow> http_response \<Rightarrow> request_config \<Rightarrow> http_error" where
  "status_error r wrapped final =
     makeError (''Request failed with status code '' @ string_of_int (raw_status r))
       final (Some wrapped) (Some (raw_status r))"

text \<open>\<^verbatim>\<open>!final.signal && final.timeout\<close>: no signal, and a timeout that is not 0.\<close>

definition armed :: "request_config \<Rightarrow> bool" where
  "armed final = (signal final = None \<and> (case timeout final of Some t \<Rightarrow> t \<noteq> 0 | None \<Rightarrow> False))"

definition arm :: "request_config \<Rightarrow> event list" where
  "arm final = (case timeout final of
                  Some t \<Rightarrow> (if armed final then [SetTimeout t] else [])
                | None \<Rightarrow> [])"

text \<open>\<^verbatim>\<open>finally { if (timer) clearTimeout(timer); }\<close>: a timer that was set is truthy.\<close>

definition disarm :: "request_config \<Rightarrow> event list" where
  "disarm final = (if armed final then [ClearTimeout] else [])"

definition isTimeout :: "thrown \<Rightarrow> bool" where
  "isTimeout e = (e_name e = Some ''AbortError'')"

text \<open>The template \<^verbatim>\<open>`timeout of ${final.timeout}ms exceeded`\<close>.\<close>

definition timeout_message :: "request_config \<Rightarrow> string" where
  "timeout_message final =
     ''timeout of '' @ (case timeout final of Some t \<Rightarrow> string_of_int t | None \<Rightarrow> ''undefined'')
       @ ''ms exceeded''"

definition header_content :: "store \<Rightarrow> headers_init option \<Rightarrow> hdrs" where
  "header_content s h =
     (case h of
        Some (HeadersObj r) \<Rightarrow> deref s r
      | Some (Plain kvs) \<Rightarrow> new_Headers kvs Map.empty
      | None \<Rightarrow> Map.empty)"

text \<open>The result of a call: how the promise settles, the store it leaves, what it did.\<close>

record call =
  outcome :: "thrown + jsval"
  heap_after :: store
  events :: "event list"

subsection \<open>The pipeline of part_000\<close>

definition merged :: "platform \<Rightarrow> world \<Rightarrow> request_config \<Rightarrow> request_config \<times> store" where
  "merged p w cfg =
     (case merge_headers w cfg of
        (h, s) \<Rightarrow>
          (let body = data cfg;
               s' = (if isPlainObj body \<and> \<not> h_has ''Content-Type'' (deref s h)
                     then store_upd s h (h_set ''Content-Type'' ''application/json'') else s);
               body' = (if isPlainObj body \<and>
                           (case h_get ''Content-Type'' (deref s' h) of
                              Some ct \<Rightarrow> str_includes ct ''application/json''
                            | None \<Rightarrow> False)
                        then json_text p body else body)
           in ((spread (defaults w) cfg)
                 \<lparr>headers := Some (HeadersObj h),
                  data := body',
                  credentials :=
                    (if orElse (withCredentials cfg) (withCredentials (defaults w)) = Some True
                     then Some ''include''
                     else orElse (credentials cfg) (credentials (defaults w))),
                  http_method := Some (resolved_method (defaults w) cfg)\<rparr>,
               s')))"

text \<open>
  The \<^verbatim>\<open>catch\<close> of the dispatch: an error that carries \<^verbatim>\<open>isAxiosError\<close> is kept as it
  is, anything else becomes an \<^verbatim>\<open>HttpError\<close>.
\<close>

definition normalized :: "request_config \<Rightarrow> thrown \<Rightarrow> thrown" where
  "normalized final e =
     (if e_isAxiosError e then e
      else HttpErr (makeError
             (if isTimeout e then timeout_message final
              else (case e_message e of Some m \<Rightarrow> m | None \<Rightarrow> ''Network Error''))
             final
             (e_response e)
             (if isTimeout e then Some 0 else map_option res_status (e_response e))))"

text \<open>
  \<^verbatim>\<open>const maybe = await res.runRejected(err);\<close>
  \<^verbatim>\<open>if (maybe && typeof maybe === "object" && "status" in maybe && "data" in maybe)\<close>
  \<^verbatim>\<open>  return maybe.data;\<close>
  \<^verbatim>\<open>return maybe;\<close> and \<^verbatim>\<open>catch (handled) { throw handled; }\<close>
\<close>

definition response_shaped :: "jsval \<Rightarrow> bool" where
  "response_shaped maybe =
     (truthy maybe \<and> typeof maybe = ''object'' \<and> has_key ''status'' maybe \<and> has_key ''data'' maybe)"

definition recover :: "http_response handler option list \<Rightarrow> thrown \<Rightarrow> thrown + jsval" where
  "recover res err =
     (case runRejected res err of
        Inr maybe \<Rightarrow> (if response_shaped maybe then Inr (get_key ''data'' maybe) else Inr maybe)
      | Inl handled \<Rightarrow> Inl handled)"

text \<open>The \<^verbatim>\<open>try\<close> block of the dispatch: what it returns or throws, and what it did.\<close>

definition attempt ::
  "platform \<Rightarrow> http_response handler option list \<Rightarrow> request_config \<Rightarrow> store \<Rightarrow>
   (thrown + jsval) \<times> event list" where
  "attempt p res final s =
     (case fetch p final (header_content s (headers final)) of
        Inl x \<Rightarrow> (Inl (Exn x), [Fetch (url final)])
      | Inr r \<Rightarrow>
          (case parse_body r of
             (parsed, reads) \<Rightarrow>
               (let wrapped = wrap r parsed final
                in if raw_status r < 200 \<or> raw_status r \<ge> 300
                   then (Inl (HttpErr (status_error r wrapped final)), Fetch (url final) # reads)
                   else (case runFulfilled res wrapped of
                           Inl e \<Rightarrow> (Inl e, Fetch (url final) # reads)
                         | Inr processed \<Rightarrow> (Inr (res_data processed), Fetch (url final) # reads)))))"

definition dispatch ::
  "platform \<Rightarrow> http_response handler option list \<Rightarrow> request_config \<Rightarrow> store \<Rightarrow> call" where
  "dispatch p res final s =
     (case attempt p res final s of
        (Inr v, evs) \<Rightarrow>
          \<lparr>outcome = Inr v, heap_after = s, events = arm final @ evs @ disarm final\<rparr>
      | (Inl e, evs) \<Rightarrow>
          \<lparr>outcome = recover res (normalized final e), heap_after = s,
           events = arm final @ evs @ [RunRejected (normalized final e)] @ disarm final\<rparr>)"

text \<open>
  How far a call gets before the dispatch: the request chain failed (with the merged
  configuration), the base join threw, or the dispatch is entered with the final
  configuration.
\<close>

datatype prepared =
    HookFailed thrown request_config store
  | JoinFailed js_exn store
  | Ready request_config store

text \<open>
  The first half of \<^verbatim>\<open>core\<close>: merge; the request chain; the base join, outside any
  \<^verbatim>\<open>try\<close>; the headers made a \<^verbatim>\<open>Headers\<close> object again.
\<close>

definition prepare ::
  "platform \<Rightarrow> request_config handler option list \<Rightarrow> world \<Rightarrow> request_config \<Rightarrow> prepared" where
  "prepare p req w cfg =
     (case merged p w cfg of
        (final0, s) \<Rightarrow>
          (case runFulfilled req final0 of
             Inl e \<Rightarrow> HookFailed e final0 s
           | Inr final1 \<Rightarrow>
               (let base = orElse (baseURL final1) (baseURL (defaults w));
                    u = (case orElse (url final1) (url cfg) of Some u \<Rightarrow> u | None \<Rightarrow> [])
                in case (case base of
                           Some b \<Rightarrow> (if b \<noteq> [] \<and> u \<noteq> [] then combine p b u else Inr u)
                         | None \<Rightarrow> Inr u) of
                     Inl x \<Rightarrow> JoinFailed x s
                   | Inr u' \<Rightarrow>
                       (case toHeaders (headers final1) s of
                          (h, s') \<Rightarrow>
                            Ready (final1\<lparr>url := Some u', headers := Some (HeadersObj h)\<rparr>) s'))))"

text \<open>
  \<^verbatim>\<open>makeError(e?.message ?? "Request interceptor error", final)\<close>, for a failure of the
  request chain.
\<close>

definition hook_error :: "thrown \<Rightarrow> request_config \<Rightarrow> thrown" where
  "hook_error e final0 =
     HttpErr (makeError
       (case e_message e of Some m \<Rightarrow> m | None \<Rightarrow> ''Request interceptor error'')
       final0 None None)"

text \<open>
  \<^verbatim>\<open>core\<close>: a failure of the request chain goes to the response failure chain; an
  exception of the base join leaves \<^verbatim>\<open>core\<close> as it was thrown; otherwise the dispatch.
\<close>

definition core ::
  "platform \<Rightarrow> request_config handler option list \<Rightarrow> http_response handler option list \<Rightarrow>
   world \<Rightarrow> request_config \<Rightarrow> call" where
  "core p req res w cfg =
     (case prepare p req w cfg of
        HookFailed e final0 s \<Rightarrow>
          \<lparr>outcome = recover res (hook_error e final0), heap_after = s,
           events = [RunRejected (hook_error e final0)]\<rparr>
      | JoinFailed x s \<Rightarrow> \<lparr>outcome = Inl (Exn x), heap_after = s, events = []\<rparr>
      | Ready final s \<Rightarrow> dispatch p res final s)"

subsection \<open>The pipeline of src/index.ts\<close>

definition normalized_src :: "request_config \<Rightarrow> thrown \<Rightarrow> thrown" where
  "normalized_src final e =
     (if e_isAxiosError e then e
      else HttpErr (makeError
             (if isTimeout e then timeout_message final
              else (case e_message e of Some m \<Rightarrow> m | None \<Rightarrow> ''Network Error''))
             final
             None
             (if isTimeout e then Some 0 else None)))"

definition attempt_src ::
  "platform \<Rightarrow> (http_response \<Rightarrow> thrown + http_response) option list \<Rightarrow> request_config \<Rightarrow>
   store \<Rightarrow> (thrown + jsval) \<times> event list" where
  "attempt_src p res final s =
     (case fetch p final (header_content s (headers final)) of
        Inl x \<Rightarrow> (Inl (Exn x), [Fetch (url final)])
      | Inr r \<Rightarrow>
          (case read_body r of
             (parsed, reads) \<Rightarrow>
               (let wrapped = wrap r parsed final
                in if raw_status r < 200 \<or> raw_status r \<ge> 300
                   then (Inl (HttpErr (status_error r wrapped final)), Fetch (url final) # reads)
                   else (case run res wrapped of
                           Inl e \<Rightarrow> (Inl e, Fetch (url final) # reads)
                         | Inr processed \<Rightarrow> (Inr (res_data processed), Fetch (url final) # reads)))))"

definition dispatch_src ::
  "platform \<Rightarrow> (http_response \<Rightarrow> thrown + http_response) option list \<Rightarrow> request_config \<Rightarrow>
   store \<Rightarrow> call" where
  "dispatch_src p res final s =
     (case attempt_src p res final s of
        (Inr v, evs) \<Rightarrow>
          \<lparr>outcome = Inr v, heap_after = s, events = arm final @ evs @ disarm final\<rparr>
      | (Inl e, evs) \<Rightarrow>
          \<lparr>outcome = Inl (normalized_src final e), heap_after = s,
           events = arm final @ evs @ disarm final\<rparr>)"

text \<open>
  The merge of src/index.ts: the headers; the base join, which may throw; the body, a
  plain object always encoded.
\<close>

definition merged_src ::
  "platform \<Rightarrow> world \<Rightarrow> request_config \<Rightarrow> (js_exn + request_config) \<times> store" where
  "merged_src p w cfg =
     (case merge_headers w cfg of
        (h, s) \<Rightarrow>
          (let u = (case url cfg of Some u \<Rightarrow> u | None \<Rightarrow> []);
               base = orElse (baseURL cfg) (baseURL (defaults w))
           in case (case base of
                      Some b \<Rightarrow> (if u \<noteq> [] \<and> b \<noteq> [] then combine_src p b u else Inr u)
                    | None \<Rightarrow> Inr u) of
                Inl x \<Rightarrow> (Inl x, s)
              | Inr u' \<Rightarrow>
                  (let body = data cfg;
                       s' = (if isPlainObj body \<and> \<not> h_has ''Content-Type'' (deref s h)
                             then store_upd s h (h_set ''Content-Type'' ''application/json'') else s);
                       body' = (if isPlainObj body then json_text p body else body)
                   in (Inr ((spread (defaults w) cfg)
                         \<lparr>url := Some u',
                          headers := Some (HeadersObj h),
                          credentials :=
                            (if withCredentials cfg = Some True then Some ''include''
                             else orElse (credentials cfg) (credentials (defaults w))),
                          data := body',
                          http_method := Some (resolved_method (defaults w) cfg)\<rparr>),
                       s'))))"

definition prepare_src ::
  "platform \<Rightarrow> (request_config \<Rightarrow> thrown + request_config) option list \<Rightarrow> world \<Rightarrow>
   request_config \<Rightarrow> prepared" where
  "prepare_src p req w cfg =
     (case merged_src p w cfg of
        (Inl x, s) \<Rightarrow> JoinFailed x s
      | (Inr final0, s) \<Rightarrow>
          (case run req final0 of
             Inl e \<Rightarrow> HookFailed e final0 s
           | Inr final \<Rightarrow> Ready final s))"

text \<open>
  \<^verbatim>\<open>core\<close> of src/index.ts: a failure of the request chain leaves \<^verbatim>\<open>core\<close> as it was
  thrown, and so does an exception of the base join.
\<close>

definition core_src ::
  "platform \<Rightarrow> (request_config \<Rightarrow> thrown + request_config) option list \<Rightarrow>
   (http_response \<Rightarrow> thrown + http_response) option list \<Rightarrow> world \<Rightarrow> request_config \<Rightarrow> call" where
  "core_src p req res w cfg =
     (case prepare_src p req w cfg of
        HookFailed e final0 s \<Rightarrow> \<lparr>outcome = Inl e, heap_after = s, events = []\<rparr>
      | JoinFailed x s \<Rightarrow> \<lparr>outcome = Inl (Exn x), heap_after = s, events = []\<rparr>
      | Ready final s \<Rightarrow> dispatch_src p res final s)"

subsection \<open>What a call offered to the failure chain, what it did with timers\<close>

fun offered :: "event list \<Rightarrow> thrown list" where
  "offered [] = []"
| "offered (RunRejected e # evs) = e # offered evs"
| "offered (_ # evs) = offered evs"

fun timers :: "event list \<Rightarrow> event list" where
  "timers [] = []"
| "timers (SetTimeout t # evs) = SetTimeout t # timers evs"
| "timers (ClearTimeout # evs) = ClearTimeout # timers evs"
| "timers (_ # evs) = timers evs"

fun reads :: "event list \<Rightarrow> event list" where
  "reads [] = []"
| "reads (ReadJson # evs) = ReadJson # reads evs"
| "reads (ReadText # evs) = ReadText # reads evs"
| "reads (_ # evs) = reads evs"

text \<open>
  What the specification says a failure chain does with the failure callbacks still
  registered: the first that returns a value ends the failure; one that throws hands
  what it threw to the next; with none left the error is thrown to the caller.
\<close>

fun failure_chain :: "(thrown \<Rightarrow> thrown + jsval) list \<Rightarrow> thrown \<Rightarrow> thrown + jsval" where
  "failure_chain [] err = Inl err"
| "failure_chain (f # fs) err =
     (case f err of Inr v \<Rightarrow> Inr v | Inl next \<Rightarrow> failure_chain fs next)"

definition rejected_callbacks :: "'a handler option list \<Rightarrow> (thrown \<Rightarrow> thrown + jsval) list" where
  "rejected_callbacks hs = List.map_filter (\<lambda>h. Option.bind h onRejected) hs"

subsection \<open>Examples\<close>

text \<open>
  Inputs for the examples: a configuration with nothing set; a platform around a given
  transport, whose \<open>stringify\<close> writes a string in quotes and an object of string
  properties in braces (enough for the bodies of the examples), and whose \<open>resolve\<close>
  appends the path to the base.
\<close>

definition no_config :: request_config where
  "no_config =
     \<lparr>url = None, http_method = None, baseURL = None, headers = None, data = Val JUndefined,
      timeout = None, withCredentials = None, credentials = None, signal = None, init = []\<rparr>"

definition quoted :: "string \<Rightarrow> string" where
  "quoted s = [CHR 0x22] @ s @ [CHR 0x22]"

fun example_field :: "string \<times> jsval \<Rightarrow> string" where
  "example_field (k, JStr s) = quoted k @ '':'' @ quoted s"
| "example_field (k, _) = quoted k @ '':null''"

fun example_fields :: "(string \<times> jsval) list \<Rightarrow> string" where
  "example_fields [] = []"
| "example_fields [kv] = example_field kv"
| "example_fields (kv # kvs) = example_field kv @ '','' @ example_fields kvs"

fun example_stringify :: "jsval \<Rightarrow> string" where
  "example_stringify (JStr s) = quoted s"
| "example_stringify (JObj kvs) = ''{'' @ example_fields kvs @ ''}''"
| "example_stringify _ = ''null''"

definition example_platform :: "(request_config \<Rightarrow> hdrs \<Rightarrow> js_exn + raw_response) \<Rightarrow> platform" where
  "example_platform f =
     \<lparr>stringify = example_stringify, resolve = (\<lambda>rel base. Inr (base @ rel)), fetch = f\<rparr>"

text \<open>A response with a JSON body \<^verbatim>\<open>{"error":"missing"}\<close> and a given status.\<close>

definition missing :: "int \<Rightarrow> raw_response" where
  "missing st =
     \<lparr>raw_status = st,
      raw_headers = [''content-type'' \<mapsto> ''application/json''],
      raw_json = Inr (JObj [(''error'', JStr ''missing'')]),
      raw_text = Inr (example_stringify (JObj [(''error'', JStr ''missing'')]))\<rparr>"

text \<open>A response whose body readers both reject.\<close>

definition syntax_error :: js_exn where
  "syntax_error = \<lparr>name = Some ''SyntaxError'', message = Some ''Unexpected end of JSON input'',
     response = None\<rparr>"

definition unreadable :: "int \<Rightarrow> string \<Rightarrow> raw_response" where
  "unreadable st ct =
     \<lparr>raw_status = st, raw_headers = [''content-type'' \<mapsto> ct],
      raw_json = Inl syntax_error, raw_text = Inl syntax_error\<rparr>"

text \<open>A response with no content: both readers give the empty body.\<close>

definition no_content :: "int \<Rightarrow> raw_response" where
  "no_content st =
     \<lparr>raw_status = st, raw_headers = Map.empty,
      raw_json = Inl syntax_error, raw_text = Inr []\<rparr>"

text \<open>What an aborted \<^verbatim>\<open>fetch\<close> rejects with.\<close>

definition abort_error :: js_exn where
  "abort_error = \<lparr>name = Some ''AbortError'', message = Some ''This operation was aborted'',
     response = None\<rparr>"

text \<open>Failure callbacks: one recovers with a response-shaped value, one recovers with a
  plain value, one throws another error, one throws what it was given.\<close>

definition fallback :: "thrown \<Rightarrow> thrown + jsval" where
  "fallback e = Inr (JObj [(''status'', JNum 200), (''data'', JStr ''fallback'')])"

definition plain_fallback :: "thrown \<Rightarrow> thrown + jsval" where
  "plain_fallback e = Inr (JStr ''plain'')"

definition boom :: thrown where
  "boom = Exn \<lparr>name = Some ''Error'', message = Some ''boom'', response = None\<rparr>"

definition replace_error :: "thrown \<Rightarrow> thrown + jsval" where
  "replace_error e = Inl boom"

definition rethrow :: "thrown \<Rightarrow> thrown + jsval" where
  "rethrow e = Inl e"

definition on_failure :: "(thrown \<Rightarrow> thrown + jsval) \<Rightarrow> http_response handler option" where
  "on_failure f = Some \<lparr>onFulfilled = None, onRejected = Some f\<rparr>"

subsection \<open>Well-formed states, and inputs for the examples\<close>

text \<open>
  A reference to a \<^verbatim>\<open>Headers\<close> object is valid in a store that holds the object.
\<close>

definition valid_headers :: "store \<Rightarrow> headers_init option \<Rightarrow> bool" where
  "valid_headers s h = (case h of Some (HeadersObj r) \<Rightarrow> r < length s | _ \<Rightarrow> True)"

text \<open>
  A client as \<^verbatim>\<open>createHttp()\<close> makes it; requests for a path; the configuration and the
  store with which the dispatch of such a request is entered on that client; a request
  with a body; a request with a header of its own; a transport that answers with the
  value of the header \<^verbatim>\<open>x-req\<close> it was sent; a request callback that fails.
\<close>

definition example_world :: world where
  "example_world = createHttp no_config []"

definition get_config :: "string \<Rightarrow> int option \<Rightarrow> request_config" where
  "get_config u t = no_config\<lparr>url := Some u, timeout := t\<rparr>"

definition example_final :: "string \<Rightarrow> int option \<Rightarrow> request_config" where
  "example_final u t =
     \<lparr>url = Some u, http_method = Some ''GET'', baseURL = None, headers = Some (HeadersObj 0),
      data = Val JUndefined, timeout = t, withCredentials = None, credentials = None,
      signal = None, init = []\<rparr>"

definition example_store :: store where
  "example_store = [Map.empty, Map.empty]"

definition post_config :: "body \<Rightarrow> request_config" where
  "post_config b = no_config\<lparr>url := Some ''/items'', http_method := Some ''post'', data := b\<rparr>"

definition post_final :: "body \<Rightarrow> request_config" where
  "post_final b =
     \<lparr>url = Some ''/items'', http_method = Some ''POST'', baseURL = None,
      headers = Some (HeadersObj 0), data = b, timeout = None, withCredentials = None,
      credentials = None, signal = None, init = []\<rparr>"

definition header_config :: request_config where
  "header_config = no_config\<lparr>url := Some ''/a'', headers := Some (Plain [(''X-Req'', ''1'')])\<rparr>"

definition echo :: "request_config \<Rightarrow> hdrs \<Rightarrow> js_exn + raw_response" where
  "echo c h =
     Inr \<lparr>raw_status = 200, raw_headers = Map.empty, raw_json = Inl syntax_error,
          raw_text = Inr (case h ''x-req'' of Some v \<Rightarrow> v | None \<Rightarrow> ''absent'')\<rparr>"

definition failing_request_hook :: "request_config handler option" where
  "failing_request_hook = Some \<lparr>onFulfilled = Some (\<lambda>c. Inl boom), onRejected = None\<rparr>"

text \<open>
  A request with a timeout of 50 and a signal of the caller's own, as
  \<^verbatim>\<open>AbortSignal.timeout(50)\<close> makes it, with the final configuration of its dispatch;
  and what \<^verbatim>\<open>fetch\<close> rejects with when such a signal fires: a \<^verbatim>\<open>DOMException\<close> named
  \<^verbatim>\<open>TimeoutError\<close>.
\<close>

definition signal_config :: request_config where
  "signal_config = no_config\<lparr>url := Some ''/slow'', timeout := Some 50,
     signal := Some (AbortSignal 1)\<rparr>"

definition signal_final :: request_config where
  "signal_final = (example_final ''/slow'' (Some 50))\<lparr>signal := Some (AbortSignal 1)\<rparr>"

definition timeout_error :: js_exn where
  "timeout_error = \<lparr>name = Some ''TimeoutError'',
     message = Some ''The operation was aborted due to timeout'', response = None\<rparr>"

section \<open>Hook chains\<close>

subsection \<open>The registry keeps the book of its callers\<close>



















subsection \<open>Ejecting twice, ejecting what was never issued\<close>

lemma eject_eject: "eject i (eject i handlers) = eject i handlers"
  by (auto simp: eject_def)

lemma replicate_None_update: "(replicate k None)[j := None] = replicate k None"
  by (induction k arbitrary: j) (simp_all split: nat.splits)

lemma eject_src_eject_src: "eject_src i (eject_src i list) = eject_src i list"
proof -
  have "(list @ replicate (Suc k) None)[j := None] = list @ replicate (Suc k) None"
    if "length list \<le> j" for j k
    using that replicate_None_update[of "Suc k"] by (simp add: list_update_append)
  then show ?thesis
    by (auto simp: eject_src_def replicate_append_same)
qed

lemma run_append:
  "run (xs @ ys) v = (case run xs v of Inl e \<Rightarrow> Inl e | Inr v' \<Rightarrow> run ys v')"
  by (induction xs arbitrary: v) (simp_all split: option.splits sum.splits)

lemma run_replicate_None: "run (replicate k None) v = Inr v"
  by (induction k) simp_all

lemma run_eject_src_empty_slot:
  assumes "\<not> (0 \<le> i \<and> nat i < length list \<and> list ! nat i \<noteq> None)"
  shows "run (eject_src i list) v = run list v"
proof (cases "0 \<le> i")
  case False
  then show ?thesis by (simp add: eject_src_def)
next
  case True
  show ?thesis
  proof (cases "nat i < length list")
    case True
    then have "list ! nat i = None" using assms \<open>0 \<le> i\<close> by simp
    then have "list[nat i := None] = list" using True by (metis list_update_id)
    then show ?thesis using True \<open>0 \<le> i\<close> by (simp add: eject_src_def)
  next
    case False
    then show ?thesis using True
      by (simp add: eject_src_def run_append run_replicate_None split: sum.splits)
  qed
qed

text \<open>
  Claim C10. Ejecting a handle twice leaves the chain as ejecting it once does, and its
  success and failure runs with it; ejecting an id that \<^verbatim>\<open>use\<close> never returned (an id
  that is not an index of the registry) leaves the result of both runs unchanged, on
  every input. In src/utils/index.ts such an eject may lengthen the list with empty
  slots; what \<^verbatim>\<open>run\<close> returns is still the same.
\<close>

theorem eject_idempotent_and_unissued:
  "eject i (eject i handlers) = eject i handlers \<and>
   runFulfilled (eject i (eject i handlers)) v = runFulfilled (eject i handlers) v \<and>
   runRejected (eject i (eject i handlers)) e = runRejected (eject i handlers) e \<and>
   (\<not> (0 \<le> i \<and> nat i < length handlers) \<longrightarrow>
      eject i handlers = handlers \<and>
      runFulfilled (eject i handlers) v = runFulfilled handlers v \<and>
      runRejected (eject i handlers) e = runRejected handlers e) \<and>
   eject_src i (eject_src i list) = eject_src i list \<and>
   run (eject_src i (eject_src i list)) v = run (eject_src i list) v \<and>
   (\<not> (0 \<le> i \<and> nat i < length list) \<longrightarrow> run (eject_src i list) v = run list v)"
proof -
  have a: "eject i (eject i handlers) = eject i handlers" by (rule eject_eject)
  have b: "\<not> (0 \<le> i \<and> nat i < length handlers) \<longrightarrow> eject i handlers = handlers"
    by (auto simp: eject_def)
  have c: "eject_src i (eject_src i list) = eject_src i list" by (rule eject_src_eject_src)
  have d: "\<not> (0 \<le> i \<and> nat i < length list) \<longrightarrow> run (eject_src i list) v = run list v"
    using run_eject_src_empty_slot[of i list v] by blast
  show ?thesis using a b c d by simp
qed

theorem eject_idempotent_and_unissued_witness:
  "eject 1 (eject 1 [Some (tag_handler CHR ''a''), Some (tag_handler CHR ''b'')]) =
     [Some (tag_handler CHR ''a''), None] \<and>
   eject 7 [Some (tag_handler CHR ''a''), Some (tag_handler CHR ''b'')] =
     [Some (tag_handler CHR ''a''), Some (tag_handler CHR ''b'')] \<and>
   run (eject_src 7 [Some (tag CHR ''a''), Some (tag CHR ''b'')]) '''' = Inr ''ab''"
  using eject_idempotent_and_unissued[of 7 "[Some (tag_handler CHR ''a''), Some (tag_handler CHR ''b'')]"
      "''''" "Exn \<lparr>name = None, message = None, response = None\<rparr>" "[Some (tag CHR ''a''), Some (tag CHR ''b'')]"]
    eject_idempotent_and_unissued[of 1 "[Some (tag_handler CHR ''a''), Some (tag_handler CHR ''b'')]"
      "''''" "Exn \<lparr>name = None, message = None, response = None\<rparr>" "[Some (tag CHR ''a''), Some (tag CHR ''b'')]"]
  by (simp add: eject_def tag_def)

section \<open>The request pipeline\<close>

subsection \<open>Evaluation of the examples\<close>

lemmas eval_defs = core_def prepare_def merged_def merge_headers_def store_upd_def deref_def
  spread_def orElse_def resolved_method_def toUpperCase_def upper_char_def toLowerCase_def lower_char_def
  dispatch_def attempt_def parse_body_def read_body_def content_type_def startsWith_def
  wrap_def status_error_def makeError_def string_of_int_def armed_def arm_def disarm_def
  isTimeout_def timeout_message_def header_content_def normalized_def response_shaped_def
  recover_def hook_error_def createHttp_def no_config_def example_platform_def
  h_set_def h_get_def h_has_def combine_def isAbs_def slashed_def endsWith_def
  core_src_def prepare_src_def merged_src_def dispatch_src_def attempt_src_def normalized_src_def
  combine_src_def example_world_def example_final_def example_store_def get_config_def
  signal_config_def signal_final_def post_final_def

lemmas state_defs = setHeader_def removeHeader_def setBaseURL_def echo_def header_config_def
  h_append_def h_delete_def

lemma string_of_int_404: "string_of_int 404 = ''404''"
  by code_simp

lemma string_of_int_50: "string_of_int 50 = ''50''"
  by code_simp

lemma example_prepare:
  "prepare (example_platform f) [] example_world (get_config (CHR ''/'' # u) t) =
     Ready (example_final (CHR ''/'' # u) t) example_store"
  by (cases t) (simp_all add: eval_defs)

lemma example_prepare_src:
  "prepare_src (example_platform f) [] example_world (get_config (CHR ''/'' # u) t) =
     Ready (example_final (CHR ''/'' # u) t) example_store"
  by (cases t) (simp_all add: eval_defs)

lemma example_merge_headers:
  "merge_headers example_world (post_config b) = (0, example_store)"
  by (simp add: eval_defs post_config_def)

lemma signal_prepare:
  "prepare (example_platform f) [] example_world signal_config = Ready signal_final example_store"
  by (simp add: eval_defs)

lemma signal_prepare_src:
  "prepare_src (example_platform f) [] example_world signal_config = Ready signal_final example_store"
  by (simp add: eval_defs)

subsection \<open>The stages of a call\<close>

lemma core_Ready:
  "prepare p req w cfg = Ready final s \<Longrightarrow> core p req res w cfg = dispatch p res final s"
  by (simp add: core_def)

lemma core_src_Ready:
  "prepare_src p req w cfg = Ready final s \<Longrightarrow> core_src p req res w cfg = dispatch_src p res final s"
  by (simp add: core_src_def)

lemma prepare_HookFailed:
  "merged p w cfg = (fm, sm) \<Longrightarrow> runFulfilled req fm = Inl em \<Longrightarrow>
   prepare p req w cfg = HookFailed em fm sm"
  by (simp add: prepare_def)

lemma attempt_rejected:
  "fetch p final (header_content s (headers final)) = Inl x \<Longrightarrow>
   attempt p res final s = (Inl (Exn x), [Fetch (url final)])"
  by (simp add: attempt_def)

lemma attempt_src_rejected:
  "fetch p final (header_content s (headers final)) = Inl x \<Longrightarrow>
   attempt_src p res final s = (Inl (Exn x), [Fetch (url final)])"
  by (simp add: attempt_src_def)

lemma attempt_status:
  "fetch p final (header_content s (headers final)) = Inr r \<Longrightarrow>
   raw_status r < 200 \<or> 300 \<le> raw_status r \<Longrightarrow>
   attempt p res final s =
     (Inl (HttpErr (status_error r (wrap r (fst (parse_body r)) final) final)),
      Fetch (url final) # snd (parse_body r))"
  by (simp add: attempt_def case_prod_beta)

lemma attempt_src_status:
  "fetch p final (header_content s (headers final)) = Inr r \<Longrightarrow>
   raw_status r < 200 \<or> 300 \<le> raw_status r \<Longrightarrow>
   attempt_src p res final s =
     (Inl (HttpErr (status_error r (wrap r (fst (read_body r)) final) final)),
      Fetch (url final) # snd (read_body r))"
  by (simp add: attempt_src_def case_prod_beta)

lemma attempt_success:
  "fetch p final (header_content s (headers final)) = Inr r \<Longrightarrow>
   200 \<le> raw_status r \<Longrightarrow> raw_status r < 300 \<Longrightarrow>
   attempt p res final s =
     (case runFulfilled res (wrap r (fst (parse_body r)) final) of
        Inl e \<Rightarrow> (Inl e, Fetch (url final) # snd (parse_body r))
      | Inr processed \<Rightarrow> (Inr (res_data processed), Fetch (url final) # snd (parse_body r)))"
  by (simp add: attempt_def case_prod_beta)

lemma attempt_src_success:
  "fetch p final (header_content s (headers final)) = Inr r \<Longrightarrow>
   200 \<le> raw_status r \<Longrightarrow> raw_status r < 300 \<Longrightarrow>
   attempt_src p res final s =
     (case run res (wrap r (fst (read_body r)) final) of
        Inl e \<Rightarrow> (Inl e, Fetch (url final) # snd (read_body r))
      | Inr processed \<Rightarrow> (Inr (res_data processed), Fetch (url final) # snd (read_body r)))"
  by (simp add: attempt_src_def case_prod_beta)

lemma attempt_events:
  "snd (attempt p res final s) =
     (case fetch p final (header_content s (headers final)) of
        Inl x \<Rightarrow> [Fetch (url final)]
      | Inr r \<Rightarrow> Fetch (url final) # snd (parse_body r))"
  by (simp add: attempt_def case_prod_beta Let_def split: sum.splits)

lemma attempt_src_events:
  "snd (attempt_src p res final s) =
     (case fetch p final (header_content s (headers final)) of
        Inl x \<Rightarrow> [Fetch (url final)]
      | Inr r \<Rightarrow> Fetch (url final) # snd (read_body r))"
  by (simp add: attempt_src_def case_prod_beta Let_def split: sum.splits)

text \<open>part_000 honours claim C5.\<close>

lemma dispatch_failed:
  "attempt p res final s = (Inl e, evs) \<Longrightarrow>
   dispatch p res final s =
     \<lparr>outcome = recover res (normalized final e), heap_after = s,
      events = arm final @ evs @ [RunRejected (normalized final e)] @ disarm final\<rparr>"
  by (simp add: dispatch_def)

lemma dispatch_src_failed:
  "attempt_src p res final s = (Inl e, evs) \<Longrightarrow>
   dispatch_src p res final s =
     \<lparr>outcome = Inl (normalized_src final e), heap_after = s,
      events = arm final @ evs @ disarm final\<rparr>"
  by (simp add: dispatch_src_def)

lemma dispatch_events:
  "events (dispatch p res final s) =
     arm final @ snd (attempt p res final s) @
       (case fst (attempt p res final s) of
          Inl e \<Rightarrow> [RunRejected (normalized final e)] | Inr v \<Rightarrow> []) @ disarm final"
  by (cases "attempt p res final s") (simp add: dispatch_def split: sum.splits)

lemma dispatch_outcome:
  "outcome (dispatch p res final s) =
     (case fst (attempt p res final s) of
        Inl e \<Rightarrow> recover res (normalized final e) | Inr v \<Rightarrow> Inr v)"
  by (cases "attempt p res final s") (simp add: dispatch_def split: sum.splits)

lemma dispatch_src_events:
  "events (dispatch_src p res final s) = arm final @ snd (attempt_src p res final s) @ disarm final"
  by (cases "attempt_src p res final s") (simp add: dispatch_src_def split: sum.splits)

lemma dispatch_src_outcome:
  "outcome (dispatch_src p res final s) =
     (case fst (attempt_src p res final s) of
        Inl e \<Rightarrow> Inl (normalized_src final e) | Inr v \<Rightarrow> Inr v)"
  by (cases "attempt_src p res final s") (simp add: dispatch_src_def split: sum.splits)

lemma normalized_HttpErr: "normalized final (HttpErr h) = HttpErr h"
  by (simp add: normalized_def)

lemma normalized_src_HttpErr: "normalized_src final (HttpErr h) = HttpErr h"
  by (simp add: normalized_src_def)

lemma normalized_marked: "e_isAxiosError (normalized final e)"
  by (simp add: normalized_def)

lemma normalized_abort:
  "name x = Some ''AbortError'' \<Longrightarrow>
   normalized final (Exn x) =
     HttpErr \<lparr>err_message = timeout_message final, err_response = response x,
              err_config = final, err_status = Some 0\<rparr>"
  by (simp add: normalized_def isTimeout_def makeError_def)

lemma normalized_src_abort:
  "name x = Some ''AbortError'' \<Longrightarrow>
   normalized_src final (Exn x) =
     HttpErr \<lparr>err_message = timeout_message final, err_response = None,
              err_config = final, err_status = Some 0\<rparr>"
  by (simp add: normalized_src_def isTimeout_def makeError_def)

lemma status_error_fields:
  "status_error r (wrap r d final) final =
     \<lparr>err_message = ''Request failed with status code '' @ string_of_int (raw_status r),
      err_response = Some \<lparr>res_data = d, res_status = raw_status r,
                            res_headers = raw_headers r, res_config = final\<rparr>,
      err_config = final,
      err_status = Some (raw_status r)\<rparr>"
  by (simp add: status_error_def wrap_def makeError_def)

subsection \<open>What a call offers to the failure chain\<close>

lemma offered_append: "offered (xs @ ys) = offered xs @ offered ys"
  by (induction xs rule: offered.induct) simp_all

lemma offered_arm: "offered (arm final) = []"
  by (simp add: arm_def split: option.splits)

lemma offered_disarm: "offered (disarm final) = []"
  by (simp add: disarm_def)

lemma offered_parse_body: "offered (snd (parse_body r)) = []"
  by (simp add: parse_body_def read_body_def)

lemma offered_attempt: "offered (snd (attempt p res final s)) = []"
  by (simp add: attempt_def Let_def offered_parse_body[simplified] parse_body_def read_body_def
      split: sum.splits prod.splits)

lemma offered_dispatch_failed:
  assumes "attempt p res final s = (Inl e, evs)"
  shows "offered (events (dispatch p res final s)) = [normalized final e]"
proof -
  have "offered evs = []" using offered_attempt[of p res final s] assms by simp
  then show ?thesis
    by (simp add: dispatch_failed[OF assms] offered_append offered_arm offered_disarm)
qed

lemma runRejected_failure_chain:
  "runRejected hs err = failure_chain (rejected_callbacks hs) err"
  by (induction hs arbitrary: err)
     (simp_all add: rejected_callbacks_def List.map_filter_simps split: option.splits sum.splits)

lemma recover_failure_chain:
  "recover res err =
     (case failure_chain (rejected_callbacks res) err of
        Inr v \<Rightarrow> Inr (if response_shaped v then get_key ''data'' v else v)
      | Inl e' \<Rightarrow> Inl e')"
  by (simp add: recover_def runRejected_failure_chain split: sum.splits)

lemma response_shaped_iff:
  "response_shaped v \<longleftrightarrow>
     (\<exists>kvs. v = JObj kvs \<and> map_of kvs ''status'' \<noteq> None \<and> map_of kvs ''data'' \<noteq> None)"
  by (cases v) (auto simp: response_shaped_def)

subsection \<open>What a call does with timers\<close>

lemma timers_append: "timers (xs @ ys) = timers xs @ timers ys"
  by (induction xs rule: timers.induct) simp_all

lemma timers_parse_body: "timers (snd (parse_body r)) = []"
  by (simp add: parse_body_def read_body_def)

lemma timers_read_body: "timers (snd (read_body r)) = []"
  by (simp add: read_body_def)

lemma timers_attempt: "timers (snd (attempt p res final s)) = []"
  by (simp add: attempt_events timers_parse_body split: sum.splits)

lemma timers_attempt_src: "timers (snd (attempt_src p res final s)) = []"
  by (simp add: attempt_src_events timers_read_body split: sum.splits)

lemma armed_timeout: "armed final \<Longrightarrow> \<exists>t. timeout final = Some t \<and> t \<noteq> 0"
  by (auto simp: armed_def split: option.splits)

lemma arm_armed: "armed final \<Longrightarrow> timeout final = Some t \<Longrightarrow> arm final = [SetTimeout t]"
  by (simp add: arm_def)

lemma arm_unarmed: "\<not> armed final \<Longrightarrow> arm final = []"
  by (simp add: arm_def split: option.splits)

lemma dispatch_armed:
  assumes "armed final"
  shows "\<exists>t mid. timeout final = Some t \<and> t \<noteq> 0 \<and>
           events (dispatch p res final s) = SetTimeout t # mid @ [ClearTimeout] \<and> timers mid = []"
proof -
  obtain t where t: "timeout final = Some t" "t \<noteq> 0" using armed_timeout[OF assms] by blast
  let ?mid = "snd (attempt p res final s) @
       (case fst (attempt p res final s) of
          Inl e \<Rightarrow> [RunRejected (normalized final e)] | Inr v \<Rightarrow> [])"
  have "events (dispatch p res final s) = SetTimeout t # ?mid @ [ClearTimeout]"
    by (simp add: dispatch_events arm_armed[OF assms t(1)] disarm_def assms)
  moreover have "timers ?mid = []"
    by (simp add: timers_append timers_attempt split: sum.splits)
  ultimately show ?thesis using t by blast
qed

lemma dispatch_src_armed:
  assumes "armed final"
  shows "\<exists>t mid. timeout final = Some t \<and> t \<noteq> 0 \<and>
           events (dispatch_src p res final s) = SetTimeout t # mid @ [ClearTimeout] \<and> timers mid = []"
proof -
  obtain t where t: "timeout final = Some t" "t \<noteq> 0" using armed_timeout[OF assms] by blast
  have "events (dispatch_src p res final s) =
          SetTimeout t # snd (attempt_src p res final s) @ [ClearTimeout]"
    by (simp add: dispatch_src_events arm_armed[OF assms t(1)] disarm_def assms)
  then show ?thesis using t timers_attempt_src[of p res final s] by blast
qed

lemma dispatch_unarmed: "\<not> armed final \<Longrightarrow> timers (events (dispatch p res final s)) = []"
  by (simp add: dispatch_events arm_unarmed disarm_def timers_append timers_attempt
      split: sum.splits)

lemma dispatch_src_unarmed: "\<not> armed final \<Longrightarrow> timers (events (dispatch_src p res final s)) = []"
  by (simp add: dispatch_src_events arm_unarmed disarm_def timers_append timers_attempt_src)

lemma core_not_Ready:
  "\<not> (\<exists>final s. prepare p req w cfg = Ready final s \<and> armed final) \<Longrightarrow>
   timers (events (core p req res w cfg)) = []"
  by (cases "prepare p req w cfg") (simp_all add: core_def dispatch_unarmed)

lemma core_src_not_Ready:
  "\<not> (\<exists>final s. prepare_src p req w cfg = Ready final s \<and> armed final) \<Longrightarrow>
   timers (events (core_src p req res w cfg)) = []"
  by (cases "prepare_src p req w cfg") (simp_all add: core_src_def dispatch_src_unarmed)

subsection \<open>A status outside 200..299\<close>

text \<open>
  Claim C1, as amended. When the transport answers with a status outside \<open>[200, 300)\<close>,
  \<^verbatim>\<open>core\<close> builds an \<^verbatim>\<open>HttpError\<close> whose message is
  \<^verbatim>\<open>Request failed with status code\<close> followed by the status, whose status is that
  status and whose response is the normalized response, decoded body included. In
  src/index.ts it is what the caller receives. In part_000 it is offered once to the
  response failure chain, and is what the caller receives when that chain throws it back
  as it got it (no failure callback, or each one throwing the error it was given).
\<close>

theorem status_failure_structured_error:
  assumes "fetch p final (header_content s (headers final)) = Inr r"
    and "raw_status r < 200 \<or> 300 \<le> raw_status r"
    and "E = (\<lambda>d. HttpErr
           \<lparr>err_message = ''Request failed with status code '' @ string_of_int (raw_status r),
            err_response = Some \<lparr>res_data = d, res_status = raw_status r,
                                  res_headers = raw_headers r, res_config = final\<rparr>,
            err_config = final,
            err_status = Some (raw_status r)\<rparr>)"
  shows
    "(prepare p req w cfg = Ready final s \<longrightarrow>
        offered (events (core p req res w cfg)) = [E (fst (parse_body r))] \<and>
        outcome (core p req res w cfg) = recover res (E (fst (parse_body r))) \<and>
        (runRejected res (E (fst (parse_body r))) = Inl (E (fst (parse_body r))) \<longrightarrow>
           outcome (core p req res w cfg) = Inl (E (fst (parse_body r))))) \<and>
     (prepare_src p req' w cfg = Ready final s \<longrightarrow>
        outcome (core_src p req' res' w cfg) = Inl (E (fst (read_body r))))"
proof (intro conjI impI)
  assume ready: "prepare p req w cfg = Ready final s"
  note a = attempt_status[OF assms(1,2), of res]
  have n: "normalized final (HttpErr (status_error r (wrap r (fst (parse_body r)) final) final))
             = E (fst (parse_body r))"
    by (simp add: normalized_HttpErr status_error_fields assms(3))
  show o: "offered (events (core p req res w cfg)) = [E (fst (parse_body r))]"
    using offered_dispatch_failed[OF a] n by (simp add: core_Ready[OF ready])
  show c: "outcome (core p req res w cfg) = recover res (E (fst (parse_body r)))"
    using n by (simp add: core_Ready[OF ready] dispatch_failed[OF a])
  assume "runRejected res (E (fst (parse_body r))) = Inl (E (fst (parse_body r)))"
  then show "outcome (core p req res w cfg) = Inl (E (fst (parse_body r)))"
    using c by (simp add: recover_def)
next
  assume ready: "prepare_src p req' w cfg = Ready final s"
  note a = attempt_src_status[OF assms(1,2), of res']
  show "outcome (core_src p req' res' w cfg) = Inl (E (fst (read_body r)))"
    by (simp add: core_src_Ready[OF ready] dispatch_src_failed[OF a] normalized_src_HttpErr
        status_error_fields assms(3))
qed

text \<open>
  The scenario of the specification: status 404 with the body \<^verbatim>\<open>{"error":"missing"}\<close>.
\<close>

theorem status_failure_structured_error_witness:
  "fetch (example_platform (\<lambda>c h. Inr (missing 404))) (example_final ''/missing'' None)
     (header_content example_store (headers (example_final ''/missing'' None))) = Inr (missing 404) \<and>
   300 \<le> raw_status (missing 404) \<and>
   prepare (example_platform (\<lambda>c h. Inr (missing 404))) [] example_world (get_config ''/missing'' None)
     = Ready (example_final ''/missing'' None) example_store \<and>
   prepare_src (example_platform (\<lambda>c h. Inr (missing 404))) [] example_world (get_config ''/missing'' None)
     = Ready (example_final ''/missing'' None) example_store \<and>
   outcome (core (example_platform (\<lambda>c h. Inr (missing 404))) [] [on_failure rethrow] example_world
              (get_config ''/missing'' None)) =
     Inl (HttpErr
       \<lparr>err_message = ''Request failed with status code 404'',
        err_response = Some \<lparr>res_data = JObj [(''error'', JStr ''missing'')], res_status = 404,
                              res_headers = [''content-type'' \<mapsto> ''application/json''],
                              res_config = example_final ''/missing'' None\<rparr>,
        err_config = example_final ''/missing'' None,
        err_status = Some 404\<rparr>) \<and>
   outcome (core_src (example_platform (\<lambda>c h. Inr (missing 404))) [] [] example_world
              (get_config ''/missing'' None)) =
     Inl (HttpErr
       \<lparr>err_message = ''Request failed with status code 404'',
        err_response = Some \<lparr>res_data = JObj [(''error'', JStr ''missing'')], res_status = 404,
                              res_headers = [''content-type'' \<mapsto> ''application/json''],
                              res_config = example_final ''/missing'' None\<rparr>,
        err_config = example_final ''/missing'' None,
        err_status = Some 404\<rparr>)"
proof -
  let ?P = "example_platform (\<lambda>c h. Inr (missing 404))"
  let ?F = "example_final ''/missing'' None"
  have h1: "fetch ?P ?F (header_content example_store (headers ?F)) = Inr (missing 404)"
    by (simp add: example_platform_def)
  have h2: "raw_status (missing 404) < 200 \<or> 300 \<le> raw_status (missing 404)"
    by (simp add: missing_def)
  have d: "fst (parse_body (missing 404)) = JObj [(''error'', JStr ''missing'')]"
          "fst (read_body (missing 404)) = JObj [(''error'', JStr ''missing'')]"
    by (simp_all add: parse_body_def read_body_def content_type_def missing_def startsWith_def)
  have hd: "raw_headers (missing 404) = [''content-type'' \<mapsto> ''application/json'']"
           "raw_status (missing 404) = 404"
    by (simp_all add: missing_def)
  show ?thesis
    using h1 h2 d
      status_failure_structured_error[OF h1 h2 refl,
        where req = "[]" and w = example_world and cfg = "get_config ''/missing'' None"
          and res = "[on_failure rethrow]" and req' = "[]" and res' = "[]"]
    by (simp add: example_prepare example_prepare_src string_of_int_404 on_failure_def rethrow_def
        recover_def hd)
qed

text \<open>
  The claim as it was stated fails in part_000: a failure callback that does not
  recover may throw another value, and that value, not the \<^verbatim>\<open>HttpError\<close>, reaches the
  caller (\<^verbatim>\<open>err = next\<close> in \<^verbatim>\<open>runRejected\<close>).
\<close>

theorem status_failure_counterexample:
  "prepare (example_platform (\<lambda>c h. Inr (missing 404))) [] example_world (get_config ''/missing'' None)
     = Ready (example_final ''/missing'' None) example_store \<and>
   fetch (example_platform (\<lambda>c h. Inr (missing 404))) (example_final ''/missing'' None)
     (header_content example_store (headers (example_final ''/missing'' None))) = Inr (missing 404) \<and>
   raw_status (missing 404) = 404 \<and>
   (\<forall>e. runRejected [on_failure replace_error] e = Inl boom) \<and>
   \<not> e_isAxiosError boom \<and>
   outcome (core (example_platform (\<lambda>c h. Inr (missing 404))) [] [on_failure replace_error]
              example_world (get_config ''/missing'' None)) = Inl boom"
proof -
  let ?P = "example_platform (\<lambda>c h. Inr (missing 404))"
  let ?F = "example_final ''/missing'' None"
  have h1: "fetch ?P ?F (header_content example_store (headers ?F)) = Inr (missing 404)"
    by (simp add: example_platform_def)
  have h2: "raw_status (missing 404) < 200 \<or> 300 \<le> raw_status (missing 404)"
    by (simp add: missing_def)
  have r: "runRejected [on_failure replace_error] e = Inl boom" for e
    by (simp add: on_failure_def replace_error_def)
  have "outcome (core ?P [] [on_failure replace_error] example_world (get_config ''/missing'' None))
          = Inl boom"
    by (simp add: core_Ready[OF example_prepare] dispatch_failed[OF attempt_status[OF h1 h2]]
        recover_def on_failure_def replace_error_def)
  moreover have "raw_status (missing 404) = 404" by (simp add: missing_def)
  moreover have "\<not> e_isAxiosError boom" by (simp add: boom_def)
  ultimately show ?thesis
    using h1 r example_prepare[of "\<lambda>c h. Inr (missing 404)" "''missing''" None] by simp
qed

subsection \<open>Cancellation\<close>

text \<open>
  What both copies do with a rejection named \<^verbatim>\<open>AbortError\<close>, which is what the
  timer of \<^verbatim>\<open>core\<close> brings about: an \<^verbatim>\<open>HttpError\<close> with status 0 and the message of
  the template \<^verbatim>\<open>timeout of ${final.timeout}ms exceeded\<close>. In part_000 it goes through
  the response failure chain before it reaches the caller.
\<close>

lemma abort_error_classified:
  assumes "fetch p final (header_content s (headers final)) = Inl x"
    and "name x = Some ''AbortError''"
    and "E = (\<lambda>resp. HttpErr
           \<lparr>err_message = ''timeout of '' @
              (case timeout final of Some t \<Rightarrow> string_of_int t | None \<Rightarrow> ''undefined'') @
              ''ms exceeded'',
            err_response = resp, err_config = final, err_status = Some 0\<rparr>)"
  shows
    "(prepare p req w cfg = Ready final s \<longrightarrow>
        offered (events (core p req res w cfg)) = [E (response x)] \<and>
        outcome (core p req res w cfg) = recover res (E (response x)) \<and>
        (runRejected res (E (response x)) = Inl (E (response x)) \<longrightarrow>
           outcome (core p req res w cfg) = Inl (E (response x)))) \<and>
     (prepare_src p req' w cfg = Ready final s \<longrightarrow>
        outcome (core_src p req' res' w cfg) = Inl (E None))"
proof (intro conjI impI)
  assume ready: "prepare p req w cfg = Ready final s"
  note a = attempt_rejected[OF assms(1), of res]
  have n: "normalized final (Exn x) = E (response x)"
    by (simp add: normalized_abort[OF assms(2)] assms(3) timeout_message_def)
  show "offered (events (core p req res w cfg)) = [E (response x)]"
    using offered_dispatch_failed[OF a] n by (simp add: core_Ready[OF ready])
  show c: "outcome (core p req res w cfg) = recover res (E (response x))"
    using n by (simp add: core_Ready[OF ready] dispatch_failed[OF a])
  assume "runRejected res (E (response x)) = Inl (E (response x))"
  then show "outcome (core p req res w cfg) = Inl (E (response x))"
    using c by (simp add: recover_def)
next
  assume ready: "prepare_src p req' w cfg = Ready final s"
  note a = attempt_src_rejected[OF assms(1), of res']
  show "outcome (core_src p req' res' w cfg) = Inl (E None)"
    by (simp add: core_src_Ready[OF ready] dispatch_src_failed[OF a]
        normalized_src_abort[OF assms(2)] assms(3) timeout_message_def)
qed

text \<open>
  Claim C2 fails in both copies for a cancellation by the caller's token.
  \<^verbatim>\<open>isTimeout\<close> is the test \<^verbatim>\<open>e?.name === "AbortError"\<close>; a signal made by
  \<^verbatim>\<open>AbortSignal.timeout(50)\<close> makes \<^verbatim>\<open>fetch\<close> reject with an exception named
  \<^verbatim>\<open>TimeoutError\<close> (and \<^verbatim>\<open>abort(reason)\<close> with its reason). With a timeout of 50
  configured, no interceptor and such a signal, the call is cancelled and the error that
  reaches the caller has no status and the message of the exception, where the claim
  says status 0 and \<^verbatim>\<open>timeout of 50ms exceeded\<close>.
\<close>

theorem external_cancellation_not_timeout:
  "timeout signal_config = Some 50 \<and>
   signal signal_config = Some (AbortSignal 1) \<and>
   name timeout_error = Some ''TimeoutError'' \<and>
   prepare (example_platform (\<lambda>c h. Inl timeout_error)) [] example_world signal_config
     = Ready signal_final example_store \<and>
   fetch (example_platform (\<lambda>c h. Inl timeout_error)) signal_final
     (header_content example_store (headers signal_final)) = Inl timeout_error \<and>
   outcome (core (example_platform (\<lambda>c h. Inl timeout_error)) [] [] example_world signal_config) =
     Inl (HttpErr \<lparr>err_message = ''The operation was aborted due to timeout'',
                   err_response = None, err_config = signal_final, err_status = None\<rparr>) \<and>
   timers (events (core (example_platform (\<lambda>c h. Inl timeout_error)) [] [] example_world
                     signal_config)) = [] \<and>
   prepare_src (example_platform (\<lambda>c h. Inl timeout_error)) [] example_world signal_config
     = Ready signal_final example_store \<and>
   outcome (core_src (example_platform (\<lambda>c h. Inl timeout_error)) [] [] example_world
              signal_config) =
     Inl (HttpErr \<lparr>err_message = ''The operation was aborted due to timeout'',
                   err_response = None, err_config = signal_final, err_status = None\<rparr>)"
proof -
  let ?P = "example_platform (\<lambda>c h. Inl timeout_error)"
  have h1: "fetch ?P signal_final (header_content example_store (headers signal_final))
              = Inl timeout_error"
    by (simp add: example_platform_def)
  have n: "normalized signal_final (Exn timeout_error) =
             HttpErr \<lparr>err_message = ''The operation was aborted due to timeout'',
                      err_response = None, err_config = signal_final, err_status = None\<rparr>"
    by (simp add: normalized_def isTimeout_def makeError_def timeout_error_def)
  have ns: "normalized_src signal_final (Exn timeout_error) =
             HttpErr \<lparr>err_message = ''The operation was aborted due to timeout'',
                      err_response = None, err_config = signal_final, err_status = None\<rparr>"
    by (simp add: normalized_src_def isTimeout_def makeError_def timeout_error_def)
  have ua: "\<not> armed signal_final"
    by (simp add: armed_def signal_final_def)
  have a: "outcome (core ?P [] [] example_world signal_config) =
     Inl (HttpErr \<lparr>err_message = ''The operation was aborted due to timeout'',
                   err_response = None, err_config = signal_final, err_status = None\<rparr>)"
    by (simp add: core_Ready[OF signal_prepare] dispatch_failed[OF attempt_rejected[OF h1]] n
        recover_def)
  have b: "outcome (core_src ?P [] [] example_world signal_config) =
     Inl (HttpErr \<lparr>err_message = ''The operation was aborted due to timeout'',
                   err_response = None, err_config = signal_final, err_status = None\<rparr>)"
    by (simp add: core_src_Ready[OF signal_prepare_src]
        dispatch_src_failed[OF attempt_src_rejected[OF h1]] ns)
  have c: "timers (events (core ?P [] [] example_world signal_config)) = []"
    by (simp add: core_Ready[OF signal_prepare] dispatch_unarmed[OF ua])
  have d: "timeout signal_config = Some 50" "signal signal_config = Some (AbortSignal 1)"
    "name timeout_error = Some ''TimeoutError''"
    by (simp_all add: signal_config_def no_config_def timeout_error_def)
  show ?thesis
    using a b c d h1 signal_prepare[of "\<lambda>c h. Inl timeout_error"]
      signal_prepare_src[of "\<lambda>c h. Inl timeout_error"] by blast
qed

subsection \<open>The response failure chain (part_000)\<close>

text \<open>
  Claim C3. A failure of the request chain, a status outside \<open>[200, 300)\<close>, a
  rejection of the transport (a cancellation among them) and a failure of the response
  success chain each reach the response failure chain once, as an error that carries
  \<^verbatim>\<open>isAxiosError\<close>: the run of \<^verbatim>\<open>runRejected\<close> on it is the only one of the call. The
  call settles as that run says: the first failure callback that returns a value ends
  the failure, one that throws hands what it threw to the callbacks after it, and with
  none left the last error is thrown to the caller; a returned value that is an object
  with a \<^verbatim>\<open>status\<close> and a \<^verbatim>\<open>data\<close> property resolves the call to its \<^verbatim>\<open>data\<close>, any
  other returned value resolves the call to itself.
\<close>

theorem failure_chain_offered_once:
  "(merged p w cfg = (fm, sm) \<and> runFulfilled req fm = Inl em \<longrightarrow>
      offered (events (core p req res w cfg)) = [hook_error em fm] \<and>
      e_isAxiosError (hook_error em fm) \<and>
      outcome (core p req res w cfg) = recover res (hook_error em fm)) \<and>
   (prepare p req w cfg = Ready final s \<and> fst (attempt p res final s) = Inl e \<longrightarrow>
      offered (events (core p req res w cfg)) = [normalized final e] \<and>
      e_isAxiosError (normalized final e) \<and>
      outcome (core p req res w cfg) = recover res (normalized final e)) \<and>
   (fetch p final (header_content s (headers final)) = Inr r \<and>
    (raw_status r < 200 \<or> 300 \<le> raw_status r) \<longrightarrow>
      fst (attempt p res final s) =
        Inl (HttpErr (status_error r (wrap r (fst (parse_body r)) final) final))) \<and>
   (fetch p final (header_content s (headers final)) = Inl x \<longrightarrow>
      fst (attempt p res final s) = Inl (Exn x)) \<and>
   recover res err =
     (case failure_chain (rejected_callbacks res) err of
        Inr v \<Rightarrow> Inr (if response_shaped v then get_key ''data'' v else v)
      | Inl e' \<Rightarrow> Inl e') \<and>
   (response_shaped v \<longleftrightarrow>
     (\<exists>kvs. v = JObj kvs \<and> map_of kvs ''status'' \<noteq> None \<and> map_of kvs ''data'' \<noteq> None))"
proof (intro conjI impI)
  assume h: "merged p w cfg = (fm, sm) \<and> runFulfilled req fm = Inl em"
  then have pr: "prepare p req w cfg = HookFailed em fm sm"
    by (simp add: prepare_HookFailed)
  show "offered (events (core p req res w cfg)) = [hook_error em fm]"
    by (simp add: core_def pr)
  show "e_isAxiosError (hook_error em fm)"
    by (simp add: hook_error_def)
  show "outcome (core p req res w cfg) = recover res (hook_error em fm)"
    by (simp add: core_def pr)
next
  assume h: "prepare p req w cfg = Ready final s \<and> fst (attempt p res final s) = Inl e"
  then obtain evs where a: "attempt p res final s = (Inl e, evs)"
    by (cases "attempt p res final s") simp
  from h have ready: "prepare p req w cfg = Ready final s" by simp
  show "offered (events (core p req res w cfg)) = [normalized final e]"
    using offered_dispatch_failed[OF a] by (simp add: core_Ready[OF ready])
  show "e_isAxiosError (normalized final e)" by (rule normalized_marked)
  show "outcome (core p req res w cfg) = recover res (normalized final e)"
    by (simp add: core_Ready[OF ready] dispatch_failed[OF a])
next
  assume "fetch p final (header_content s (headers final)) = Inr r \<and>
    (raw_status r < 200 \<or> 300 \<le> raw_status r)"
  then show "fst (attempt p res final s) =
        Inl (HttpErr (status_error r (wrap r (fst (parse_body r)) final) final))"
    using attempt_status[of p final s r res] by simp
next
  assume "fetch p final (header_content s (headers final)) = Inl x"
  then show "fst (attempt p res final s) = Inl (Exn x)"
    using attempt_rejected[of p final s x res] by simp
next
  show "recover res err =
     (case failure_chain (rejected_callbacks res) err of
        Inr v \<Rightarrow> Inr (if response_shaped v then get_key ''data'' v else v)
      | Inl e' \<Rightarrow> Inl e')"
    by (rule recover_failure_chain)
next
  show "response_shaped v \<longleftrightarrow>
     (\<exists>kvs. v = JObj kvs \<and> map_of kvs ''status'' \<noteq> None \<and> map_of kvs ''data'' \<noteq> None)"
    by (rule response_shaped_iff)
qed

text \<open>
  The scenario of the specification, behind a callback that throws another error: the
  fallback \<^verbatim>\<open>{status: 200, data: "fallback"}\<close> resolves the call to \<^verbatim>\<open>"fallback"\<close>. And a
  failure of the request chain recovered with a plain value.
\<close>

theorem failure_chain_offered_once_witness:
  "prepare (example_platform (\<lambda>c h. Inr (missing 404))) [] example_world (get_config ''/missing'' None)
     = Ready (example_final ''/missing'' None) example_store \<and>
   fetch (example_platform (\<lambda>c h. Inr (missing 404))) (example_final ''/missing'' None)
     (header_content example_store (headers (example_final ''/missing'' None))) = Inr (missing 404) \<and>
   300 \<le> raw_status (missing 404) \<and>
   outcome (core (example_platform (\<lambda>c h. Inr (missing 404))) []
              [on_failure replace_error, on_failure fallback, on_failure rethrow]
              example_world (get_config ''/missing'' None)) = Inr (JStr ''fallback'') \<and>
   offered (events (core (example_platform (\<lambda>c h. Inr (missing 404))) []
              [on_failure replace_error, on_failure fallback, on_failure rethrow]
              example_world (get_config ''/missing'' None))) =
     [HttpErr (status_error (missing 404)
        (wrap (missing 404) (JObj [(''error'', JStr ''missing'')]) (example_final ''/missing'' None))
        (example_final ''/missing'' None))] \<and>
   merged (example_platform (\<lambda>c h. Inr (missing 404))) example_world (get_config ''/missing'' None)
     = ((example_final ''/missing'' None)\<lparr>url := Some ''/missing''\<rparr>, example_store) \<and>
   runFulfilled [failing_request_hook] (example_final ''/missing'' None) = Inl boom \<and>
   outcome (core (example_platform (\<lambda>c h. Inr (missing 404))) [failing_request_hook]
              [on_failure plain_fallback] example_world (get_config ''/missing'' None))
     = Inr (JStr ''plain'')"
proof -
  let ?P = "example_platform (\<lambda>c h. Inr (missing 404))"
  let ?F = "example_final ''/missing'' None"
  let ?C = "get_config ''/missing'' None"
  let ?res = "[on_failure replace_error, on_failure fallback, on_failure rethrow]"
  have h1: "fetch ?P ?F (header_content example_store (headers ?F)) = Inr (missing 404)"
    by (simp add: example_platform_def)
  have h2: "raw_status (missing 404) < 200 \<or> 300 \<le> raw_status (missing 404)"
    by (simp add: missing_def)
  have d: "fst (parse_body (missing 404)) = JObj [(''error'', JStr ''missing'')]"
    by (simp add: parse_body_def read_body_def content_type_def missing_def startsWith_def)
  have m: "merged ?P example_world ?C = (?F, example_store)"
    by (simp add: eval_defs)
  have rf: "runFulfilled [failing_request_hook] ?F = Inl boom"
    by (simp add: failing_request_hook_def)
  have a: "fst (attempt ?P ?res ?F example_store) =
             Inl (HttpErr (status_error (missing 404) (wrap (missing 404)
                (JObj [(''error'', JStr ''missing'')]) ?F) ?F))"
    using attempt_status[OF h1 h2, of ?res] d by simp
  have c1: "recover ?res (HttpErr h) = Inr (JStr ''fallback'')" for h
    by (simp add: recover_def on_failure_def replace_error_def fallback_def response_shaped_def)
  have c2: "recover [on_failure plain_fallback] (hook_error boom ?F) = Inr (JStr ''plain'')"
    by (simp add: recover_def on_failure_def plain_fallback_def response_shaped_def)
  note t1 = failure_chain_offered_once[where p = ?P and req = "[]" and res = ?res
      and w = example_world and cfg = ?C and final = ?F and s = example_store
      and e = "HttpErr (status_error (missing 404) (wrap (missing 404)
                (JObj [(''error'', JStr ''missing'')]) ?F) ?F)"]
  note t2 = failure_chain_offered_once[where p = ?P and req = "[failing_request_hook]"
      and res = "[on_failure plain_fallback]" and w = example_world and cfg = ?C
      and fm = ?F and sm = example_store and em = boom]
  note pr = example_prepare[of "\<lambda>c h. Inr (missing 404)" "''missing''" None]
  note u1 = t1[THEN conjunct2, THEN conjunct1, rule_format, OF conjI[OF pr a]]
  note u2 = t2[THEN conjunct1, rule_format, OF conjI[OF m rf]]
  have o1: "outcome (core ?P [] ?res example_world ?C) = Inr (JStr ''fallback'')"
    using u1 by (simp add: normalized_HttpErr c1)
  have o2: "offered (events (core ?P [] ?res example_world ?C)) =
     [HttpErr (status_error (missing 404)
        (wrap (missing 404) (JObj [(''error'', JStr ''missing'')]) ?F) ?F)]"
    using u1 by (simp add: normalized_HttpErr)
  have o3: "outcome (core ?P [failing_request_hook] [on_failure plain_fallback] example_world ?C)
     = Inr (JStr ''plain'')"
    using u2 by (simp add: c2)
  have m': "merged ?P example_world ?C = (?F\<lparr>url := Some ''/missing''\<rparr>, example_store)"
    using m by (simp add: example_final_def)
  have h3: "300 \<le> raw_status (missing 404)" by (simp add: missing_def)
  show ?thesis
    using o1 o2 o3 m' rf h1 h3 pr by blast
qed

subsection \<open>The merger: bodies and the Content-Type header\<close>

lemma toHeaders_valid:
  "valid_headers s h \<Longrightarrow> toHeaders h s = (r, s') \<Longrightarrow>
   r < length s' \<and> length s \<le> length s' \<and> deref s' r = header_content s h \<and>
   (\<forall>k < length s. s' ! k = s ! k)"
  by (cases "(h, s)" rule: toHeaders.cases)
     (auto simp: valid_headers_def deref_def header_content_def nth_append)

lemma merge_headers_valid:
  assumes "valid_headers (heap w) (headers (defaults w))"
    and "merge_headers w cfg = (h, s)"
  shows "h < length s"
proof -
  obtain h1 s1 where a: "toHeaders (headers (defaults w)) (heap w) = (h1, s1)"
    by (cases "toHeaders (headers (defaults w)) (heap w)")
  obtain c s2 where b: "toHeaders (headers cfg) s1 = (c, s2)"
    by (cases "toHeaders (headers cfg) s1")
  have "h1 < length s1" using toHeaders_valid[OF assms(1) a] by simp
  moreover have "length s1 \<le> length s2"
    using b by (cases "(headers cfg, s1)" rule: toHeaders.cases) auto
  moreover have "h = h1" "s = store_upd s2 h1 (\<lambda>m. m ++ deref s2 c)"
    using assms(2) a b by (auto simp: merge_headers_def)
  ultimately show ?thesis by (simp add: store_upd_def)
qed

lemma set_content_type:
  "h < length s \<Longrightarrow>
   h_get ''Content-Type'' (deref (store_upd s h (h_set ''Content-Type'' ''application/json'')) h)
     = Some ''application/json''"
  by (simp add: store_upd_def deref_def h_get_def h_set_def)

lemma set_content_type_others:
  "k \<noteq> toLowerCase ''Content-Type'' \<Longrightarrow>
   deref (store_upd s h (h_set ''Content-Type'' ''application/json'')) h k = deref s h k"
  by (simp add: store_upd_def deref_def h_set_def)

lemma includes_self: "str_includes (c # s) (c # s)"
  by (simp add: startsWith_def)

lemma lower_content_type: "toLowerCase ''Content-Type'' = ''content-type''"
  by (simp add: toLowerCase_def lower_char_def)

lemma merged_plain:
  assumes "h < length s" and "merge_headers w cfg = (h, s)"
    and "data cfg = Val v" and "isPlainObj (Val v)" and "\<not> h_has ''Content-Type'' (deref s h)"
  shows "merged p w cfg =
           ((spread (defaults w) cfg)
              \<lparr>headers := Some (HeadersObj h),
               data := Val (JStr (stringify p v)),
               credentials :=
                 (if orElse (withCredentials cfg) (withCredentials (defaults w)) = Some True
                  then Some ''include''
                  else orElse (credentials cfg) (credentials (defaults w))),
               http_method := Some (resolved_method (defaults w) cfg)\<rparr>,
            store_upd s h (h_set ''Content-Type'' ''application/json''))"
  using assms set_content_type[OF assms(1)]
  by (simp add: merged_def Let_def includes_self del: isPlainObj.simps str_includes.simps)

lemma merged_other:
  assumes "merge_headers w cfg = (h, s)" and "\<not> isPlainObj (data cfg)"
  shows "merged p w cfg =
           ((spread (defaults w) cfg)
              \<lparr>headers := Some (HeadersObj h),
               data := data cfg,
               credentials :=
                 (if orElse (withCredentials cfg) (withCredentials (defaults w)) = Some True
                  then Some ''include''
                  else orElse (credentials cfg) (credentials (defaults w))),
               http_method := Some (resolved_method (defaults w) cfg)\<rparr>,
            s)"
  using assms by (simp add: merged_def Let_def)

lemma merged_headers: "merge_headers w cfg = (h, s) \<Longrightarrow> merged p w cfg = (fm, s') \<Longrightarrow>
  headers fm = Some (HeadersObj h)"
  by (auto simp: merged_def Let_def)

lemma merged_src_cases:
  assumes "merge_headers w cfg = (h, s)" and "merged_src p w cfg = (Inr fm, s')"
  shows "headers fm = Some (HeadersObj h) \<and>
         s' = (if isPlainObj (data cfg) \<and> \<not> h_has ''Content-Type'' (deref s h)
               then store_upd s h (h_set ''Content-Type'' ''application/json'') else s) \<and>
         data fm = (if isPlainObj (data cfg) then json_text p (data cfg) else data cfg)"
  using assms
  by (auto simp: merged_src_def Let_def split: sum.splits option.splits if_splits
      simp del: isPlainObj.simps)

text \<open>
  Claim C4. In both copies, once the headers of the defaults and of the call are merged
  into one \<^verbatim>\<open>Headers\<close> object: for a body that is a plain object (not null, none of the
  four classes, of type object; every object and every array is one), when the merged
  headers have no \<^verbatim>\<open>Content-Type\<close>, the merger sets it to \<^verbatim>\<open>application/json\<close>,
  leaves every other header as it was, and the body of the merged configuration is the
  text \<^verbatim>\<open>JSON.stringify\<close> gives for the object. A body of class FormData, Blob,
  ArrayBuffer or URLSearchParams, and a string, is not a plain object; for such a body
  the merged configuration has the body as it was supplied and the merged headers stay
  as they were.
\<close>

theorem plain_object_body_is_json:
  assumes "valid_headers (heap w) (headers (defaults w))"
    and "merge_headers w cfg = (h, s)"
  shows
    "(merged p w cfg = (fm, s') \<or> merged_src p w cfg = (Inr fm, s') \<longrightarrow>
        headers fm = Some (HeadersObj h) \<and>
        (data cfg = Val v \<and> isPlainObj (Val v) \<and> \<not> h_has ''Content-Type'' (deref s h) \<longrightarrow>
           h_get ''Content-Type'' (deref s' h) = Some ''application/json'' \<and>
           (\<forall>k. k \<noteq> ''content-type'' \<longrightarrow> deref s' h k = deref s h k) \<and>
           data fm = Val (JStr (stringify p v))) \<and>
        (\<not> isPlainObj (data cfg) \<longrightarrow> data fm = data cfg \<and> s' = s)) \<and>
     isPlainObj (Val (JObj kvs)) \<and> isPlainObj (Val (JArr vs)) \<and>
     \<not> isPlainObj (FormData a) \<and> \<not> isPlainObj (Blob a) \<and> \<not> isPlainObj (ArrayBuffer a) \<and>
     \<not> isPlainObj (URLSearchParams a) \<and> \<not> isPlainObj (Val (JStr t))"
proof -
  note valid = merge_headers_valid[OF assms(1,2)]
  have A: "headers fm = Some (HeadersObj h) \<and>
        (data cfg = Val v \<and> isPlainObj (Val v) \<and> \<not> h_has ''Content-Type'' (deref s h) \<longrightarrow>
           h_get ''Content-Type'' (deref s' h) = Some ''application/json'' \<and>
           (\<forall>k. k \<noteq> ''content-type'' \<longrightarrow> deref s' h k = deref s h k) \<and>
           data fm = Val (JStr (stringify p v))) \<and>
        (\<not> isPlainObj (data cfg) \<longrightarrow> data fm = data cfg \<and> s' = s)"
    if m: "merged p w cfg = (fm, s')"
  proof (intro conjI impI)
    show "headers fm = Some (HeadersObj h)" by (rule merged_headers[OF assms(2) m])
  next
    assume c: "data cfg = Val v \<and> isPlainObj (Val v) \<and> \<not> h_has ''Content-Type'' (deref s h)"
    then have e: "merged p w cfg = ((spread (defaults w) cfg)
              \<lparr>headers := Some (HeadersObj h),
               data := Val (JStr (stringify p v)),
               credentials :=
                 (if orElse (withCredentials cfg) (withCredentials (defaults w)) = Some True
                  then Some ''include''
                  else orElse (credentials cfg) (credentials (defaults w))),
               http_method := Some (resolved_method (defaults w) cfg)\<rparr>,
            store_upd s h (h_set ''Content-Type'' ''application/json''))"
      using merged_plain[OF valid assms(2), of v p] by simp
    then have s': "s' = store_upd s h (h_set ''Content-Type'' ''application/json'')"
      using m by simp
    show "h_get ''Content-Type'' (deref s' h) = Some ''application/json''"
      using set_content_type[OF valid] s' by simp
    show "\<forall>k. k \<noteq> ''content-type'' \<longrightarrow> deref s' h k = deref s h k"
      using set_content_type_others[of _ s h] s' by (simp add: lower_content_type)
    show "data fm = Val (JStr (stringify p v))"
      using e m by auto
  next
    assume c: "\<not> isPlainObj (data cfg)"
    show "data fm = data cfg" using merged_other[OF assms(2) c, of p] m by auto
    show "s' = s" using merged_other[OF assms(2) c, of p] m by auto
  qed
  have B: "headers fm = Some (HeadersObj h) \<and>
        (data cfg = Val v \<and> isPlainObj (Val v) \<and> \<not> h_has ''Content-Type'' (deref s h) \<longrightarrow>
           h_get ''Content-Type'' (deref s' h) = Some ''application/json'' \<and>
           (\<forall>k. k \<noteq> ''content-type'' \<longrightarrow> deref s' h k = deref s h k) \<and>
           data fm = Val (JStr (stringify p v))) \<and>
        (\<not> isPlainObj (data cfg) \<longrightarrow> data fm = data cfg \<and> s' = s)"
    if m: "merged_src p w cfg = (Inr fm, s')"
  proof (intro conjI impI)
    note M = merged_src_cases[OF assms(2) m]
    show "headers fm = Some (HeadersObj h)" using M by simp
    {
      assume c: "data cfg = Val v \<and> isPlainObj (Val v) \<and> \<not> h_has ''Content-Type'' (deref s h)"
      then have s': "s' = store_upd s h (h_set ''Content-Type'' ''application/json'')"
        using M by simp
      show "h_get ''Content-Type'' (deref s' h) = Some ''application/json''"
        using set_content_type[OF valid] s' by simp
      show "\<forall>k. k \<noteq> ''content-type'' \<longrightarrow> deref s' h k = deref s h k"
        using set_content_type_others[of _ s h] s' by (simp add: lower_content_type)
      show "data fm = Val (JStr (stringify p v))"
        using M c by simp
    }
    {
      assume c: "\<not> isPlainObj (data cfg)"
      show "data fm = data cfg" using M c by simp
      show "s' = s" using M c by simp
    }
  qed
  have C: "isPlainObj (Val (JObj kvs)) \<and> isPlainObj (Val (JArr vs)) \<and>
     \<not> isPlainObj (FormData a) \<and> \<not> isPlainObj (Blob a) \<and> \<not> isPlainObj (ArrayBuffer a) \<and>
     \<not> isPlainObj (URLSearchParams a) \<and> \<not> isPlainObj (Val (JStr t))"
    by simp
  show ?thesis
    using A B C by blast
qed

lemma example_merged_src_object:
  "merged_src (example_platform f) example_world (post_config (Val (JObj [(''a'', JStr ''b'')]))) =
     (Inr (post_final (Val (JStr (''{'' @ quoted ''a'' @ '':'' @ quoted ''b'' @ ''}'')))),
      [[''content-type'' \<mapsto> ''application/json''], Map.empty])"
  by (simp add: eval_defs post_config_def)

lemma example_merged_src_form:
  "merged_src (example_platform f) example_world (post_config (FormData ''form'')) =
     (Inr (post_final (FormData ''form'')), example_store)"
  by (simp add: eval_defs post_config_def)

theorem plain_object_body_is_json_witness:
  "valid_headers (heap example_world) (headers (defaults example_world)) \<and>
   merge_headers example_world (post_config (Val (JObj [(''a'', JStr ''b'')]))) = (0, example_store) \<and>
   isPlainObj (Val (JObj [(''a'', JStr ''b'')])) \<and>
   \<not> h_has ''Content-Type'' (deref example_store 0) \<and>
   h_get ''Content-Type''
     (deref (snd (merged (example_platform (\<lambda>c h. Inr (missing 201))) example_world
                    (post_config (Val (JObj [(''a'', JStr ''b'')]))))) 0) = Some ''application/json'' \<and>
   data (fst (merged (example_platform (\<lambda>c h. Inr (missing 201))) example_world
                (post_config (Val (JObj [(''a'', JStr ''b'')]))))) =
     Val (JStr (''{'' @ quoted ''a'' @ '':'' @ quoted ''b'' @ ''}'')) \<and>
   merged_src (example_platform (\<lambda>c h. Inr (missing 201))) example_world
       (post_config (Val (JObj [(''a'', JStr ''b'')]))) =
     (Inr (post_final (Val (JStr (''{'' @ quoted ''a'' @ '':'' @ quoted ''b'' @ ''}'')))),
      [[''content-type'' \<mapsto> ''application/json''], Map.empty]) \<and>
   h_get ''Content-Type'' (deref [[''content-type'' \<mapsto> ''application/json''], Map.empty] 0)
     = Some ''application/json'' \<and>
   data (post_final (Val (JStr (''{'' @ quoted ''a'' @ '':'' @ quoted ''b'' @ ''}'')))) =
     Val (JStr (''{'' @ quoted ''a'' @ '':'' @ quoted ''b'' @ ''}'')) \<and>
   merge_headers example_world (post_config (FormData ''form'')) = (0, example_store) \<and>
   data (fst (merged (example_platform (\<lambda>c h. Inr (missing 201))) example_world
                (post_config (FormData ''form'')))) = FormData ''form'' \<and>
   snd (merged (example_platform (\<lambda>c h. Inr (missing 201))) example_world
          (post_config (FormData ''form''))) = example_store \<and>
   merged_src (example_platform (\<lambda>c h. Inr (missing 201))) example_world
       (post_config (FormData ''form'')) = (Inr (post_final (FormData ''form'')), example_store) \<and>
   data (post_final (FormData ''form'')) = FormData ''form''"
proof -
  let ?obj = "Val (JObj [(''a'', JStr ''b'')])"
  let ?txt = "Val (JStr (''{'' @ quoted ''a'' @ '':'' @ quoted ''b'' @ ''}''))"
  let ?P = "example_platform (\<lambda>c h. Inr (missing 201))"
  let ?S = "[[''content-type'' \<mapsto> ''application/json''], Map.empty] :: store"
  have v1: "valid_headers (heap example_world) (headers (defaults example_world))"
    by (simp add: valid_headers_def example_world_def createHttp_def orElse_def no_config_def)
  have c: "\<not> h_has ''Content-Type'' (deref example_store 0)"
    by (simp add: h_has_def deref_def example_store_def)
  have p: "isPlainObj ?obj" by simp
  have np: "\<not> isPlainObj (FormData ''form'')" by simp
  have st: "stringify ?P (JObj [(''a'', JStr ''b'')]) = ''{'' @ quoted ''a'' @ '':'' @ quoted ''b'' @ ''}''"
    by (simp add: example_platform_def)
  have d1: "data (post_config ?obj) = ?obj" "data (post_config (FormData ''form'')) = FormData ''form''"
    by (simp_all add: post_config_def no_config_def)
  note m1 = example_merge_headers[of ?obj]
  note m2 = example_merge_headers[of "FormData ''form''"]
  note s1 = example_merged_src_object[of "\<lambda>c h. Inr (missing 201)"]
  note s2 = example_merged_src_form[of "\<lambda>c h. Inr (missing 201)"]
  note t1 = plain_object_body_is_json[OF v1 m1, where p = ?P
        and fm = "fst (merged ?P example_world (post_config ?obj))"
        and s' = "snd (merged ?P example_world (post_config ?obj))"
        and v = "JObj [(''a'', JStr ''b'')]", THEN conjunct1, rule_format]
  note t2 = plain_object_body_is_json[OF v1 m2, where p = ?P
        and fm = "fst (merged ?P example_world (post_config (FormData ''form'')))"
        and s' = "snd (merged ?P example_world (post_config (FormData ''form'')))",
        THEN conjunct1, rule_format]
  note t3 = plain_object_body_is_json[OF v1 m1, where p = ?P
        and fm = "post_final ?txt" and s' = ?S
        and v = "JObj [(''a'', JStr ''b'')]", THEN conjunct1, rule_format, OF disjI2[OF s1]]
  note t4 = plain_object_body_is_json[OF v1 m2, where p = ?P
        and fm = "post_final (FormData ''form'')" and s' = example_store,
        THEN conjunct1, rule_format, OF disjI2[OF s2]]
  have r1: "h_get ''Content-Type'' (deref (snd (merged ?P example_world (post_config ?obj))) 0)
              = Some ''application/json'' \<and>
            data (fst (merged ?P example_world (post_config ?obj))) = ?txt"
    using t1[OF disjI1] c p d1 st by simp
  have r2: "data (fst (merged ?P example_world (post_config (FormData ''form'')))) = FormData ''form'' \<and>
            snd (merged ?P example_world (post_config (FormData ''form''))) = example_store"
    using t2[OF disjI1] d1 np by simp
  have r3: "h_get ''Content-Type'' (deref ?S 0) = Some ''application/json'' \<and>
            data (post_final ?txt) = ?txt"
    using t3 c p d1 st by simp
  have r4: "data (post_final (FormData ''form'')) = FormData ''form''"
    using t4 d1 np by simp
  show ?thesis
    using v1 c p r1 r2 r3 r4 m1 m2 s1 s2 by blast
qed

subsection \<open>Responses without content\<close>

lemma reads_append: "reads (xs @ ys) = reads xs @ reads ys"
  by (induction xs rule: reads.induct) simp_all

lemma reads_arm: "reads (arm final) = []"
  by (simp add: arm_def split: option.splits)

lemma reads_disarm: "reads (disarm final) = []"
  by (simp add: disarm_def)

lemma parse_body_no_content:
  "raw_status r = 204 \<or> raw_status r = 205 \<Longrightarrow> parse_body r = (JNull, [])"
  by (auto simp: parse_body_def)

text \<open>
  In part_000 a response with status 204 or 205 is never decoded: neither body reader
  is called and the response given to the success chain has the body \<^verbatim>\<open>null\<close>.
\<close>

lemma no_content_skips_decoding:
  assumes "prepare p req w cfg = Ready final s"
    and "fetch p final (header_content s (headers final)) = Inr r"
    and "raw_status r = 204 \<or> raw_status r = 205"
  shows "reads (events (core p req res w cfg)) = [] \<and>
         outcome (core p req res w cfg) =
           (case runFulfilled res (wrap r JNull final) of
              Inl e \<Rightarrow> recover res (normalized final e)
            | Inr processed \<Rightarrow> Inr (res_data processed))"
proof -
  have st: "200 \<le> raw_status r" "raw_status r < 300" using assms(3) by auto
  have pb: "parse_body r = (JNull, [])" by (rule parse_body_no_content[OF assms(3)])
  have "reads (events (core p req res w cfg)) = []"
    by (simp add: core_Ready[OF assms(1)] dispatch_events attempt_events assms(2) pb
        reads_append reads_arm reads_disarm split: sum.splits)
  moreover have "outcome (core p req res w cfg) =
           (case runFulfilled res (wrap r JNull final) of
              Inl e \<Rightarrow> recover res (normalized final e)
            | Inr processed \<Rightarrow> Inr (res_data processed))"
    by (simp add: core_Ready[OF assms(1)] dispatch_outcome attempt_success[OF assms(2) st] pb
        split: sum.splits)
  ultimately show ?thesis by simp
qed

text \<open>
  Claim C5 fails in src/index.ts, which has no test of the status before decoding: on
  a 204 without content type it calls \<^verbatim>\<open>r.text()\<close> and resolves to the empty string,
  where part_000 calls no reader and resolves to \<^verbatim>\<open>null\<close>.
\<close>

theorem no_content_decoded_in_src:
  "raw_status (no_content 204) = 204 \<and>
   reads (events (core_src (example_platform (\<lambda>c h. Inr (no_content 204))) [] [] example_world
                   (get_config ''/items/1'' None))) = [ReadText] \<and>
   outcome (core_src (example_platform (\<lambda>c h. Inr (no_content 204))) [] [] example_world
              (get_config ''/items/1'' None)) = Inr (JStr []) \<and>
   reads (events (core (example_platform (\<lambda>c h. Inr (no_content 204))) [] [] example_world
                   (get_config ''/items/1'' None))) = [] \<and>
   outcome (core (example_platform (\<lambda>c h. Inr (no_content 204))) [] [] example_world
              (get_config ''/items/1'' None)) = Inr JNull"
proof -
  let ?P = "example_platform (\<lambda>c h. Inr (no_content 204))"
  let ?F = "example_final ''/items/1'' None"
  have h1: "fetch ?P ?F (header_content example_store (headers ?F)) = Inr (no_content 204)"
    by (simp add: example_platform_def)
  have st: "raw_status (no_content 204) = 204" "200 \<le> raw_status (no_content 204)"
    "raw_status (no_content 204) < 300"
    by (simp_all add: no_content_def)
  have rb: "read_body (no_content 204) = (JStr [], [ReadText])"
    by (simp add: read_body_def content_type_def no_content_def)
  have a: "reads (events (core_src ?P [] [] example_world (get_config ''/items/1'' None))) = [ReadText]"
    by (simp add: core_src_Ready[OF example_prepare_src] dispatch_src_events attempt_src_events h1 rb
        reads_append reads_arm reads_disarm)
  have b: "outcome (core_src ?P [] [] example_world (get_config ''/items/1'' None)) = Inr (JStr [])"
    by (simp add: core_src_Ready[OF example_prepare_src] dispatch_src_outcome
        attempt_src_success[OF h1 st(2,3)] rb wrap_def)
  note n = no_content_skips_decoding[OF example_prepare h1, where res = "[]"]
  have c: "reads (events (core ?P [] [] example_world (get_config ''/items/1'' None))) = [] \<and>
     outcome (core ?P [] [] example_world (get_config ''/items/1'' None)) = Inr JNull"
    using n st(1) by (simp add: wrap_def)
  show ?thesis using a b c st(1) by simp
qed

subsection \<open>Decode failures\<close>

text \<open>
  Claim C6. When the body reader that \<^verbatim>\<open>core\<close> calls rejects, with whatever
  exception \<open>x\<close>, the decoded body is \<^verbatim>\<open>null\<close> if the content type includes
  \<^verbatim>\<open>application/json\<close> and the empty string otherwise, and the call goes on as for any
  response: with a status in \<open>[200, 300)\<close> the response success chain runs on the response
  with that body, otherwise the status error is built from it. The exception \<open>x\<close>
  appears in no outcome. (In part_000 a reader is called only when the status is neither
  204 nor 205.)
\<close>

theorem decode_failure_degrades:
  assumes "fetch p final (header_content s (headers final)) = Inr r"
    and "if str_includes (content_type r) ''application/json''
         then raw_json r = Inl x else raw_text r = Inl x"
    and "D = (if str_includes (content_type r) ''application/json'' then JNull else JStr [])"
  shows
    "(prepare p req w cfg = Ready final s \<and> raw_status r \<noteq> 204 \<and> raw_status r \<noteq> 205 \<longrightarrow>
        fst (parse_body r) = D \<and>
        (200 \<le> raw_status r \<and> raw_status r < 300 \<longrightarrow>
           outcome (core p req res w cfg) =
             (case runFulfilled res (wrap r D final) of
                Inl e \<Rightarrow> recover res (normalized final e)
              | Inr processed \<Rightarrow> Inr (res_data processed))) \<and>
        (raw_status r < 200 \<or> 300 \<le> raw_status r \<longrightarrow>
           outcome (core p req res w cfg) =
             recover res (HttpErr (status_error r (wrap r D final) final)))) \<and>
     (prepare_src p req' w cfg = Ready final s \<longrightarrow>
        fst (read_body r) = D \<and>
        (200 \<le> raw_status r \<and> raw_status r < 300 \<longrightarrow>
           outcome (core_src p req' res' w cfg) =
             (case run res' (wrap r D final) of
                Inl e \<Rightarrow> Inl (normalized_src final e)
              | Inr processed \<Rightarrow> Inr (res_data processed))) \<and>
        (raw_status r < 200 \<or> 300 \<le> raw_status r \<longrightarrow>
           outcome (core_src p req' res' w cfg) =
             Inl (HttpErr (status_error r (wrap r D final) final))))"
proof -
  have rb: "fst (read_body r) = D"
    using assms(2,3) by (auto simp: read_body_def simp del: str_includes.simps)
  have A: "fst (parse_body r) = D \<and>
        (200 \<le> raw_status r \<and> raw_status r < 300 \<longrightarrow>
           outcome (core p req res w cfg) =
             (case runFulfilled res (wrap r D final) of
                Inl e \<Rightarrow> recover res (normalized final e)
              | Inr processed \<Rightarrow> Inr (res_data processed))) \<and>
        (raw_status r < 200 \<or> 300 \<le> raw_status r \<longrightarrow>
           outcome (core p req res w cfg) =
             recover res (HttpErr (status_error r (wrap r D final) final)))"
    if ready: "prepare p req w cfg = Ready final s"
      and st: "raw_status r \<noteq> 204" "raw_status r \<noteq> 205"
  proof (intro conjI impI)
    show pb: "fst (parse_body r) = D" using rb st by (simp add: parse_body_def)
    {
      assume "200 \<le> raw_status r \<and> raw_status r < 300"
      then have ok: "200 \<le> raw_status r" "raw_status r < 300" by simp_all
      show "outcome (core p req res w cfg) =
             (case runFulfilled res (wrap r D final) of
                Inl e \<Rightarrow> recover res (normalized final e)
              | Inr processed \<Rightarrow> Inr (res_data processed))"
        by (simp add: core_Ready[OF ready] dispatch_outcome attempt_success[OF assms(1) ok] pb
            split: sum.splits)
    }
    {
      assume out: "raw_status r < 200 \<or> 300 \<le> raw_status r"
      show "outcome (core p req res w cfg) =
             recover res (HttpErr (status_error r (wrap r D final) final))"
        by (simp add: core_Ready[OF ready] dispatch_outcome attempt_status[OF assms(1) out] pb
            normalized_HttpErr)
    }
  qed
  have B: "fst (read_body r) = D \<and>
        (200 \<le> raw_status r \<and> raw_status r < 300 \<longrightarrow>
           outcome (core_src p req' res' w cfg) =
             (case run res' (wrap r D final) of
                Inl e \<Rightarrow> Inl (normalized_src final e)
              | Inr processed \<Rightarrow> Inr (res_data processed))) \<and>
        (raw_status r < 200 \<or> 300 \<le> raw_status r \<longrightarrow>
           outcome (core_src p req' res' w cfg) =
             Inl (HttpErr (status_error r (wrap r D final) final)))"
    if ready: "prepare_src p req' w cfg = Ready final s"
  proof (intro conjI impI)
    show "fst (read_body r) = D" by (rule rb)
    {
      assume "200 \<le> raw_status r \<and> raw_status r < 300"
      then have ok: "200 \<le> raw_status r" "raw_status r < 300" by simp_all
      show "outcome (core_src p req' res' w cfg) =
             (case run res' (wrap r D final) of
                Inl e \<Rightarrow> Inl (normalized_src final e)
              | Inr processed \<Rightarrow> Inr (res_data processed))"
        by (simp add: core_src_Ready[OF ready] dispatch_src_outcome
            attempt_src_success[OF assms(1) ok] rb split: sum.splits)
    }
    {
      assume out: "raw_status r < 200 \<or> 300 \<le> raw_status r"
      show "outcome (core_src p req' res' w cfg) =
             Inl (HttpErr (status_error r (wrap r D final) final))"
        by (simp add: core_src_Ready[OF ready] dispatch_src_outcome
            attempt_src_status[OF assms(1) out] rb normalized_src_HttpErr)
    }
  qed
  show ?thesis using A B by blast
qed

theorem decode_failure_degrades_witness:
  "fetch (example_platform (\<lambda>c h. Inr (unreadable 200 ''application/json'')))
     (example_final ''/broken'' None)
     (header_content example_store (headers (example_final ''/broken'' None)))
     = Inr (unreadable 200 ''application/json'') \<and>
   str_includes (content_type (unreadable 200 ''application/json'')) ''application/json'' \<and>
   raw_json (unreadable 200 ''application/json'') = Inl syntax_error \<and>
   prepare (example_platform (\<lambda>c h. Inr (unreadable 200 ''application/json''))) [] example_world
     (get_config ''/broken'' None) = Ready (example_final ''/broken'' None) example_store \<and>
   prepare_src (example_platform (\<lambda>c h. Inr (unreadable 200 ''application/json''))) [] example_world
     (get_config ''/broken'' None) = Ready (example_final ''/broken'' None) example_store \<and>
   outcome (core (example_platform (\<lambda>c h. Inr (unreadable 200 ''application/json''))) [] []
     example_world (get_config ''/broken'' None)) = Inr JNull \<and>
   outcome (core_src (example_platform (\<lambda>c h. Inr (unreadable 200 ''application/json''))) [] []
     example_world (get_config ''/broken'' None)) = Inr JNull \<and>
   fetch (example_platform (\<lambda>c h. Inr (unreadable 200 ''text/plain'')))
     (example_final ''/broken'' None)
     (header_content example_store (headers (example_final ''/broken'' None)))
     = Inr (unreadable 200 ''text/plain'') \<and>
   \<not> str_includes (content_type (unreadable 200 ''text/plain'')) ''application/json'' \<and>
   raw_text (unreadable 200 ''text/plain'') = Inl syntax_error \<and>
   outcome (core (example_platform (\<lambda>c h. Inr (unreadable 200 ''text/plain''))) [] []
     example_world (get_config ''/broken'' None)) = Inr (JStr []) \<and>
   outcome (core_src (example_platform (\<lambda>c h. Inr (unreadable 200 ''text/plain''))) [] []
     example_world (get_config ''/broken'' None)) = Inr (JStr [])"
proof -
  let ?J = "unreadable 200 ''application/json''"
  let ?T = "unreadable 200 ''text/plain''"
  let ?F = "example_final ''/broken'' None"
  let ?C = "get_config ''/broken'' None"
  have f1: "fetch (example_platform (\<lambda>c h. Inr ?J)) ?F (header_content example_store (headers ?F))
              = Inr ?J"
    by (simp add: example_platform_def)
  have f2: "fetch (example_platform (\<lambda>c h. Inr ?T)) ?F (header_content example_store (headers ?F))
              = Inr ?T"
    by (simp add: example_platform_def)
  have j: "str_includes (content_type ?J) ''application/json''"
    by (simp add: content_type_def unreadable_def startsWith_def)
  have t: "\<not> str_includes (content_type ?T) ''application/json''"
    by (simp add: content_type_def unreadable_def startsWith_def)
  have rj: "raw_json ?J = Inl syntax_error" by (simp add: unreadable_def)
  have rt: "raw_text ?T = Inl syntax_error" by (simp add: unreadable_def)
  have st: "raw_status (unreadable 200 ct) = 200" for ct by (simp add: unreadable_def)
  have a1: "if str_includes (content_type ?J) ''application/json''
            then raw_json ?J = Inl syntax_error else raw_text ?J = Inl syntax_error"
    using j rj by simp
  have a2: "if str_includes (content_type ?T) ''application/json''
            then raw_json ?T = Inl syntax_error else raw_text ?T = Inl syntax_error"
    using t rt by simp
  note t1 = decode_failure_degrades[OF f1 a1 refl, where req = "[]" and w = example_world
      and cfg = ?C and res = "[]" and req' = "[]" and res' = "[]"]
  note t2 = decode_failure_degrades[OF f2 a2 refl, where req = "[]" and w = example_world
      and cfg = ?C and res = "[]" and req' = "[]" and res' = "[]"]
  note pr = example_prepare[of _ "''broken''" None] example_prepare_src[of _ "''broken''" None]
  have o1: "outcome (core (example_platform (\<lambda>c h. Inr ?J)) [] [] example_world ?C) = Inr JNull"
           "outcome (core_src (example_platform (\<lambda>c h. Inr ?J)) [] [] example_world ?C) = Inr JNull"
    using t1 j by (simp_all add: pr st wrap_def del: str_includes.simps)
  have o2: "outcome (core (example_platform (\<lambda>c h. Inr ?T)) [] [] example_world ?C) = Inr (JStr [])"
           "outcome (core_src (example_platform (\<lambda>c h. Inr ?T)) [] [] example_world ?C) = Inr (JStr [])"
    using t2 t by (simp_all add: pr st wrap_def del: str_includes.simps)
  show ?thesis
    using f1 f2 j t rj rt o1 o2 pr by blast
qed

subsection \<open>The defaults across calls\<close>

text \<open>
  Claim C8 fails in both copies. \<^verbatim>\<open>setHeader\<close> leaves a \<^verbatim>\<open>Headers\<close> object in
  \<^verbatim>\<open>defaults.headers\<close>; \<^verbatim>\<open>toHeaders\<close> returns such an object as it is, so \<^verbatim>\<open>core\<close> sets
  the headers of the call in the default headers themselves. After
  \<^verbatim>\<open>setHeader("X-App", "web")\<close>, a request with the header \<^verbatim>\<open>X-Req: 1\<close> leaves
  \<^verbatim>\<open>x-req\<close> in the defaults, and a later request without that header sends it. On a
  client whose default headers are still the plain object of \<^verbatim>\<open>createHttp\<close>, the same
  two requests leave no trace: \<^verbatim>\<open>toHeaders\<close> copies.
\<close>

theorem per_call_header_leaks_into_defaults:
  "headers (defaults (setHeader ''X-App'' ''web'' example_world)) = Some (HeadersObj 0) \<and>
   header_content (heap (setHeader ''X-App'' ''web'' example_world))
     (headers (defaults (setHeader ''X-App'' ''web'' example_world))) = [''x-app'' \<mapsto> ''web''] \<and>
   header_content
     (heap_after (core (example_platform echo) [] [] (setHeader ''X-App'' ''web'' example_world)
        header_config))
     (headers (defaults (setHeader ''X-App'' ''web'' example_world)))
     = [''x-app'' \<mapsto> ''web'', ''x-req'' \<mapsto> ''1''] \<and>
   outcome (core (example_platform echo) [] []
     ((setHeader ''X-App'' ''web'' example_world)
        \<lparr>heap := heap_after (core (example_platform echo) [] []
                    (setHeader ''X-App'' ''web'' example_world) header_config)\<rparr>)
     (get_config ''/b'' None)) = Inr (JStr ''1'') \<and>
   header_content
     (heap_after (core_src (example_platform echo) [] [] (setHeader ''X-App'' ''web'' example_world)
        header_config))
     (headers (defaults (setHeader ''X-App'' ''web'' example_world)))
     = [''x-app'' \<mapsto> ''web'', ''x-req'' \<mapsto> ''1''] \<and>
   outcome (core_src (example_platform echo) [] []
     ((setHeader ''X-App'' ''web'' example_world)
        \<lparr>heap := heap_after (core_src (example_platform echo) [] []
                    (setHeader ''X-App'' ''web'' example_world) header_config)\<rparr>)
     (get_config ''/b'' None)) = Inr (JStr ''1'') \<and>
   outcome (core (example_platform echo) [] []
     (example_world
        \<lparr>heap := heap_after (core (example_platform echo) [] [] example_world header_config)\<rparr>)
     (get_config ''/b'' None)) = Inr (JStr ''absent'')"
  by (simp add: eval_defs state_defs)

text \<open>
  The sibling path, in general: while \<^verbatim>\<open>defaults.headers\<close> is not a \<^verbatim>\<open>Headers\<close>
  object, a call leaves every \<^verbatim>\<open>Headers\<close> object that existed before it as it was.
\<close>

lemma toHeaders_prefix:
  "toHeaders x s = (r, s') \<Longrightarrow> n \<le> length s \<Longrightarrow> take n s' = take n s"
  by (cases "(x, s)" rule: toHeaders.cases) auto

lemma toHeaders_length: "toHeaders x s = (r, s') \<Longrightarrow> length s \<le> length s'"
  by (cases "(x, s)" rule: toHeaders.cases) auto

lemma toHeaders_fresh:
  "\<forall>r. x \<noteq> Some (HeadersObj r) \<Longrightarrow> toHeaders x s = (h, s') \<Longrightarrow> h = length s"
  by (cases "(x, s)" rule: toHeaders.cases) auto

lemma store_upd_prefix: "n \<le> h \<Longrightarrow> take n (store_upd s h f) = take n s"
  by (simp add: store_upd_def)

lemma length_store_upd: "length (store_upd s h f) = length s"
  by (simp add: store_upd_def)

lemma merge_headers_fresh:
  assumes "\<forall>r. headers (defaults w) \<noteq> Some (HeadersObj r)"
    and "merge_headers w cfg = (h, s)"
  shows "h = length (heap w) \<and> take (length (heap w)) s = heap w \<and> length (heap w) \<le> length s"
proof -
  obtain h1 s1 where a: "toHeaders (headers (defaults w)) (heap w) = (h1, s1)"
    by (cases "toHeaders (headers (defaults w)) (heap w)")
  obtain c s2 where b: "toHeaders (headers cfg) s1 = (c, s2)"
    by (cases "toHeaders (headers cfg) s1")
  have e: "h = h1" "s = store_upd s2 h1 (\<lambda>m. m ++ deref s2 c)"
    using assms(2) a b by (auto simp: merge_headers_def)
  have h1: "h1 = length (heap w)" by (rule toHeaders_fresh[OF assms(1) a])
  have l: "length (heap w) \<le> length s1" "length s1 \<le> length s2"
    using toHeaders_length[OF a] toHeaders_length[OF b] by simp_all
  have "take (length (heap w)) s2 = take (length (heap w)) s1"
    using toHeaders_prefix[OF b l(1)] .
  also have "\<dots> = heap w" using toHeaders_prefix[OF a order_refl] by simp
  finally show ?thesis using e h1 l by (simp add: store_upd_prefix length_store_upd)
qed

lemma merged_fresh:
  assumes "\<forall>r. headers (defaults w) \<noteq> Some (HeadersObj r)"
    and "merged p w cfg = (fm, s)"
  shows "take (length (heap w)) s = heap w \<and> length (heap w) \<le> length s"
proof -
  obtain h sm where m: "merge_headers w cfg = (h, sm)" by (cases "merge_headers w cfg")
  note f = merge_headers_fresh[OF assms(1) m]
  have "s = sm \<or> s = store_upd sm h (h_set ''Content-Type'' ''application/json'')"
    using assms(2) m by (auto simp: merged_def Let_def split: if_splits)
  then show ?thesis using f by (auto simp: store_upd_prefix length_store_upd)
qed

lemma merged_src_fresh:
  assumes "\<forall>r. headers (defaults w) \<noteq> Some (HeadersObj r)"
    and "merged_src p w cfg = (x, s)"
  shows "take (length (heap w)) s = heap w"
proof -
  obtain h sm where m: "merge_headers w cfg = (h, sm)" by (cases "merge_headers w cfg")
  note f = merge_headers_fresh[OF assms(1) m]
  have "s = sm \<or> s = store_upd sm h (h_set ''Content-Type'' ''application/json'')"
    using assms(2) m
    by (auto simp: merged_src_def Let_def split: if_splits sum.splits option.splits)
  then show ?thesis using f by (auto simp: store_upd_prefix)
qed

lemma heap_after_dispatch: "heap_after (dispatch p res final s) = s"
  by (cases "attempt p res final s") (simp add: dispatch_def split: sum.splits)

lemma heap_after_dispatch_src: "heap_after (dispatch_src p res final s) = s"
  by (cases "attempt_src p res final s") (simp add: dispatch_src_def split: sum.splits)

lemma plain_defaults_unchanged:
  assumes "\<forall>r. headers (defaults w) \<noteq> Some (HeadersObj r)"
  shows "take (length (heap w)) (heap_after (core p req res w cfg)) = heap w"
proof -
  obtain fm s where m: "merged p w cfg = (fm, s)" by (cases "merged p w cfg")
  note f = merged_fresh[OF assms m]
  show ?thesis
  proof (cases "prepare p req w cfg")
    case (HookFailed e c t)
    then have "t = s" using m by (auto simp: prepare_def Let_def split: sum.splits prod.splits option.splits if_splits)
    then show ?thesis using HookFailed f by (simp add: core_def)
  next
    case (JoinFailed x t)
    then have "t = s" using m by (auto simp: prepare_def Let_def split: sum.splits prod.splits option.splits if_splits)
    then show ?thesis using JoinFailed f by (simp add: core_def)
  next
    case (Ready c t)
    then obtain hh r where "toHeaders hh s = (r, t)"
      using m by (auto simp: prepare_def Let_def split: sum.splits prod.splits option.splits if_splits)
    then have "take (length (heap w)) t = take (length (heap w)) s"
      using toHeaders_prefix f by blast
    then show ?thesis using Ready f by (simp add: core_def heap_after_dispatch)
  qed
qed

lemma plain_defaults_unchanged_src:
  assumes "\<forall>r. headers (defaults w) \<noteq> Some (HeadersObj r)"
  shows "take (length (heap w)) (heap_after (core_src p req res w cfg)) = heap w"
proof -
  obtain x s where m: "merged_src p w cfg = (x, s)" by (cases "merged_src p w cfg")
  note f = merged_src_fresh[OF assms m]
  have "heap_after (core_src p req res w cfg) = s"
    using m by (cases x)
      (auto simp: core_src_def prepare_src_def heap_after_dispatch_src split: sum.splits)
  then show ?thesis using f by simp
qed

subsection \<open>The timer\<close>

text \<open>
  Claim C9. In both copies, a call sets a timer only when it enters the dispatch with a
  final configuration that has no signal and a timeout other than 0. Such a call starts
  with \<^verbatim>\<open>setTimeout\<close> and ends with \<^verbatim>\<open>clearTimeout\<close>, whatever happens between (a
  response, a status error, a rejection of the transport, a failure of a response
  callback, the failure chain), and does nothing else with timers. Every other call, one
  that fails in the request chain or in the base join among them, neither sets nor
  clears a timer.
\<close>

theorem timer_cleared_exactly_once:
  "(prepare p req w cfg = Ready final s \<and> armed final \<longrightarrow>
      (\<exists>t mid. timeout final = Some t \<and> t \<noteq> 0 \<and>
         events (core p req res w cfg) = SetTimeout t # mid @ [ClearTimeout] \<and> timers mid = [])) \<and>
   (\<not> (\<exists>final s. prepare p req w cfg = Ready final s \<and> armed final) \<longrightarrow>
      timers (events (core p req res w cfg)) = []) \<and>
   (prepare_src p req' w cfg = Ready final s \<and> armed final \<longrightarrow>
      (\<exists>t mid. timeout final = Some t \<and> t \<noteq> 0 \<and>
         events (core_src p req' res' w cfg) = SetTimeout t # mid @ [ClearTimeout] \<and>
         timers mid = [])) \<and>
   (\<not> (\<exists>final s. prepare_src p req' w cfg = Ready final s \<and> armed final) \<longrightarrow>
      timers (events (core_src p req' res' w cfg)) = [])"
proof (intro conjI impI)
  assume "prepare p req w cfg = Ready final s \<and> armed final"
  then show "\<exists>t mid. timeout final = Some t \<and> t \<noteq> 0 \<and>
         events (core p req res w cfg) = SetTimeout t # mid @ [ClearTimeout] \<and> timers mid = []"
    using dispatch_armed[of final p res s] by (simp add: core_Ready)
next
  assume "\<not> (\<exists>final s. prepare p req w cfg = Ready final s \<and> armed final)"
  then show "timers (events (core p req res w cfg)) = []" by (rule core_not_Ready)
next
  assume "prepare_src p req' w cfg = Ready final s \<and> armed final"
  then show "\<exists>t mid. timeout final = Some t \<and> t \<noteq> 0 \<and>
         events (core_src p req' res' w cfg) = SetTimeout t # mid @ [ClearTimeout] \<and> timers mid = []"
    using dispatch_src_armed[of final p res' s] by (simp add: core_src_Ready)
next
  assume "\<not> (\<exists>final s. prepare_src p req' w cfg = Ready final s \<and> armed final)"
  then show "timers (events (core_src p req' res' w cfg)) = []" by (rule core_src_not_Ready)
qed

theorem timer_cleared_exactly_once_witness:
  "prepare (example_platform (\<lambda>c h. Inl abort_error)) [] example_world (get_config ''/slow'' (Some 50))
     = Ready (example_final ''/slow'' (Some 50)) example_store \<and>
   prepare_src (example_platform (\<lambda>c h. Inl abort_error)) [] example_world (get_config ''/slow'' (Some 50))
     = Ready (example_final ''/slow'' (Some 50)) example_store \<and>
   armed (example_final ''/slow'' (Some 50)) \<and>
   timers (events (core (example_platform (\<lambda>c h. Inl abort_error)) [] [on_failure fallback]
     example_world (get_config ''/slow'' (Some 50)))) = [SetTimeout 50, ClearTimeout] \<and>
   timers (events (core_src (example_platform (\<lambda>c h. Inl abort_error)) [] []
     example_world (get_config ''/slow'' (Some 50)))) = [SetTimeout 50, ClearTimeout] \<and>
   prepare (example_platform (\<lambda>c h. Inr (missing 404))) [failing_request_hook] example_world
     (get_config ''/slow'' (Some 50)) = HookFailed boom (example_final ''/slow'' (Some 50)) example_store \<and>
   timers (events (core (example_platform (\<lambda>c h. Inr (missing 404))) [failing_request_hook] []
     example_world (get_config ''/slow'' (Some 50)))) = []"
proof -
  let ?P = "example_platform (\<lambda>c h. Inl abort_error)"
  let ?Q = "example_platform (\<lambda>c h. Inr (missing 404))"
  let ?F = "example_final ''/slow'' (Some 50)"
  let ?C = "get_config ''/slow'' (Some 50)"
  note pr = example_prepare[of _ "''slow''" "Some 50"] example_prepare_src[of _ "''slow''" "Some 50"]
  have ar: "armed ?F" by (simp add: armed_def example_final_def)
  have tm: "timeout ?F = Some 50" by (simp add: example_final_def)
  note t1 = timer_cleared_exactly_once[where p = ?P and req = "[]" and w = example_world
      and cfg = ?C and final = ?F and s = example_store and res = "[on_failure fallback]"
      and req' = "[]" and res' = "[]"]
  have a: "timers (events (core ?P [] [on_failure fallback] example_world ?C))
             = [SetTimeout 50, ClearTimeout]"
    using t1[THEN conjunct1, rule_format, OF conjI[OF pr(1) ar]] tm
    by (auto simp: timers_append)
  have b: "timers (events (core_src ?P [] [] example_world ?C)) = [SetTimeout 50, ClearTimeout]"
    using t1[THEN conjunct2, THEN conjunct2, THEN conjunct1, rule_format, OF conjI[OF pr(2) ar]] tm
    by (auto simp: timers_append)
  have m: "merged ?Q example_world ?C = (?F, example_store)"
    by (simp add: eval_defs)
  have hf: "prepare ?Q [failing_request_hook] example_world ?C = HookFailed boom ?F example_store"
    by (simp add: prepare_HookFailed[OF m] failing_request_hook_def)
  note t2 = timer_cleared_exactly_once[where p = ?Q and req = "[failing_request_hook]"
      and w = example_world and cfg = ?C and res = "[]"]
  have c: "timers (events (core ?Q [failing_request_hook] [] example_world ?C)) = []"
    using t2[THEN conjunct2, THEN conjunct1] hf by simp
  show ?thesis using pr[of "\<lambda>c h. Inl abort_error"] ar a b hf c by blast
qed

end
